theory Spec2Isabelle
  imports Main "HOL-Library.Word" "HOL-Library.AList"
begin

section \<open>Python values shared by the services\<close>

text \<open>
  A Python \<open>str\<close> is the list of its code points (at most \<open>0x10FFFF\<close>; a lone
  surrogate, \<open>0xD800\<close> to \<open>0xDFFF\<close>, is a code point like any other). \<open>lit\<close> gives
  the \<open>str\<close> of a literal of the source. Identifiers, file names and the other strings
  that never reach the embedder are kept as \<open>string\<close>, and \<open>bytes\<close> too, one \<open>char\<close>
  per byte. \<open>py_isspace\<close> is \<open>str.isspace()\<close> on one code point: the characters
  \<open>str.strip()\<close> removes.
\<close>

type_synonym pystr = "nat list"

definition lit :: "string \<Rightarrow> pystr" where
  "lit s = map of_char s"

definition py_isspace :: "nat \<Rightarrow> bool" where
  "py_isspace c =
     (c \<in> {9, 10, 11, 12, 13, 28, 29, 30, 31, 32, 133, 160, 5760, 8232, 8233, 8239, 8287, 12288}
      \<or> (8192 \<le> c \<and> c \<le> 8202))"

definition strip :: "pystr \<Rightarrow> pystr" where
  "strip s = rev (dropWhile py_isspace (rev (dropWhile py_isspace s)))"

text \<open>The guard \<open>not text or not text.strip()\<close> of \<open>split_text\<close>, \<open>embed_text\<close> and the upload handler.\<close>

definition blank :: "pystr \<Rightarrow> bool" where
  "blank text = (text = [] \<or> strip text = [])"

text \<open>
  The exceptions the modelled code meets; each carries what the handlers look at.
  \<open>CancelledError\<close> (\<open>asyncio\<close>) derives from \<open>BaseException\<close> and not from
  \<open>Exception\<close>: an \<open>except Exception\<close> clause does not catch it.
\<close>

datatype error =
    ValueError string
  | UnicodeEncodeError string
  | FileNotFoundError string
  | InvalidId string
  | OperationFailure string
  | ValidationError string
  | Exception string
  | CancelledError

fun is_Exception :: "error \<Rightarrow> bool" where
  "is_Exception CancelledError = False"
| "is_Exception e = True"

section \<open>EmbeddingService (app/services/embeddings.py)\<close>

text \<open>
  A float is its IEEE-754 binary64 bit pattern; two floats are bit-identical when the
  words are equal. The numpy operations on floats and the SHA-256 compression function
  belong to libraries outside the repository and are parameters of the model. The digest
  is a 256-bit word, \<open>hexdigest\<close> prints its 64 lower-case hexadecimal digits, and
  \<open>py_int16\<close> is \<open>int(s, 16)\<close> on strings of hexadecimal digits (\<open>None\<close> is the
  \<open>ValueError\<close> of \<open>int\<close>).

  \<open>encode\<close> is \<open>text.encode()\<close>: the UTF-8 bytes of the text, or
  \<open>UnicodeEncodeError\<close> when the text holds a surrogate code point.

  \<open>np.random\<close> keeps one global generator state per process. \<open>np_random_seed\<close> is the
  state \<open>np.random.seed(n)\<close> installs, \<open>np_random_normal st n\<close> is
  \<open>np.random.normal(0, 1, n)\<close> drawn from state \<open>st\<close>, with the state it leaves.
\<close>

type_synonym float64 = "64 word"

record 'rng numpy =
  sha256 :: "8 word list \<Rightarrow> 256 word"
  np_random_seed :: "nat \<Rightarrow> 'rng"
  np_random_normal :: "'rng \<Rightarrow> nat \<Rightarrow> float64 list \<times> 'rng"
  np_linalg_norm :: "float64 list \<Rightarrow> float64"
  np_divide :: "float64 list \<Rightarrow> float64 \<Rightarrow> float64 list"

definition is_surrogate :: "nat \<Rightarrow> bool" where
  "is_surrogate c = (55296 \<le> c \<and> c \<le> 57343)"

definition utf8_bytes :: "nat \<Rightarrow> 8 word list" where
  "utf8_bytes c =
     (if c < 128 then [of_nat c]
      else if c < 2048 then [of_nat (192 + c div 64), of_nat (128 + c mod 64)]
      else if c < 65536
      then [of_nat (224 + c div 4096), of_nat (128 + c div 64 mod 64), of_nat (128 + c mod 64)]
      else [of_nat (240 + c div 262144), of_nat (128 + c div 4096 mod 64),
            of_nat (128 + c div 64 mod 64), of_nat (128 + c mod 64)])"

definition encode :: "pystr \<Rightarrow> error + 8 word list" where
  "encode t =
     (if list_ex is_surrogate t then Inl (UnicodeEncodeError ''surrogates not allowed'')
      else Inr (concat (map utf8_bytes t)))"

definition hex_char :: "nat \<Rightarrow> char" where
  "hex_char d = ''0123456789abcdef'' ! d"

definition hexdigest :: "256 word \<Rightarrow> string" where
  "hexdigest w = map (\<lambda>i. hex_char ((unat w div 16 ^ (63 - i)) mod 16)) [0..<64]"

definition hex_digit :: "char \<Rightarrow> nat option" where
  "hex_digit c =
     (let n = (of_char c :: nat) in
      if 48 \<le> n \<and> n \<le> 57 then Some (n - 48)
      else if 97 \<le> n \<and> n \<le> 102 then Some (n - 87)
      else if 65 \<le> n \<and> n \<le> 70 then Some (n - 55)
      else None)"

fun int16_acc :: "nat \<Rightarrow> string \<Rightarrow> nat option" where
  "int16_acc acc [] = Some acc"
| "int16_acc acc (c # cs) =
     (case hex_digit c of None \<Rightarrow> None | Some d \<Rightarrow> int16_acc (16 * acc + d) cs)"

definition py_int16 :: "string \<Rightarrow> nat option" where
  "py_int16 s = (if s = [] then None else int16_acc 0 s)"

definition embedding_dim :: nat where
  "embedding_dim = 1536"

text \<open>
  \<open>embed_text\<close> takes the global generator state and returns the one it leaves behind.
  \<open>np.random.seed\<close> raises \<open>ValueError\<close> for a seed of \<open>2 ** 32\<close> or more.
\<close>

definition embed_text ::
  "('rng, 'm) numpy_scheme \<Rightarrow> 'rng \<Rightarrow> pystr \<Rightarrow> (error + float64 list) \<times> 'rng" where
  "embed_text np st text =
     (if blank text then (Inl (ValueError ''Cannot embed empty text''), st)
      else
        case encode text of
          Inl e \<Rightarrow> (Inl e, st)
        | Inr encoded \<Rightarrow>
            let hex_dig = hexdigest (sha256 np encoded) in
            case py_int16 (take 8 hex_dig) of
              None \<Rightarrow> (Inl (ValueError ''invalid literal for int() with base 16''), st)
            | Some seed \<Rightarrow>
                if 2 ^ 32 \<le> seed
                then (Inl (ValueError ''Seed must be between 0 and 2**32 - 1''), st)
                else
                  let (embedding, st') =
                        np_random_normal np (np_random_seed np seed) embedding_dim
                  in (Inr (np_divide np embedding (np_linalg_norm np embedding)), st'))"

section \<open>BSON values and the document store\<close>

text \<open>
  \<open>bson.ObjectId(s)\<close> of a \<open>str\<close>: a string of 24 characters is parsed with
  \<open>bytes.fromhex\<close>, which reads pairs of hexadecimal digits and skips ASCII whitespace
  between the pairs; anything else is \<open>InvalidId\<close>. \<open>str(oid)\<close> prints the bytes in
  lower-case hexadecimal digits.
\<close>

datatype objectid = OID string

definition ascii_space :: "char \<Rightarrow> bool" where
  "ascii_space c = (of_char c \<in> {9, 10, 11, 12, 13, 32 :: nat})"

fun fromhex :: "string \<Rightarrow> nat list option" where
  "fromhex [] = Some []"
| "fromhex [c] = (if ascii_space c then Some [] else None)"
| "fromhex (c # d # cs) =
     (if ascii_space c then fromhex (d # cs)
      else
        case (hex_digit c, hex_digit d) of
          (Some a, Some b) \<Rightarrow>
            (case fromhex cs of None \<Rightarrow> None | Some bs \<Rightarrow> Some ((16 * a + b) # bs))
        | _ \<Rightarrow> None)"

definition hexlify :: "nat list \<Rightarrow> string" where
  "hexlify bs = concat (map (\<lambda>b. [hex_char (b div 16), hex_char (b mod 16)]) bs)"

definition ObjectId :: "string \<Rightarrow> error + objectid" where
  "ObjectId s =
     (if length s = 24
      then (case fromhex s of Some bs \<Rightarrow> Inr (OID (hexlify bs)) | None \<Rightarrow> Inl (InvalidId s))
      else Inl (InvalidId s))"

fun str_oid :: "objectid \<Rightarrow> string" where
  "str_oid (OID h) = h"

text \<open>
  A \<open>datetime\<close> with its fields. \<open>digits2\<close>, \<open>digits4\<close> and \<open>digits6\<close> print the
  last decimal digits of a number, which is \<open>{n:02d}\<close>, \<open>{n:04d}\<close> and \<open>{n:06d}\<close>
  for the field ranges of a valid datetime.
\<close>

datatype datetime =
  Datetime (year: nat) (month: nat) (day: nat) (hour: nat) (minute: nat) (second: nat)
    (microsecond: nat)

definition dec_digit :: "nat \<Rightarrow> char" where
  "dec_digit d = ''0123456789'' ! d"

definition digits2 :: "nat \<Rightarrow> string" where
  "digits2 n = [dec_digit (n div 10 mod 10), dec_digit (n mod 10)]"

definition digits4 :: "nat \<Rightarrow> string" where
  "digits4 n = digits2 (n div 100) @ digits2 n"

definition digits6 :: "nat \<Rightarrow> string" where
  "digits6 n = digits2 (n div 10000) @ digits4 n"

definition isoformat_sep :: "char \<Rightarrow> datetime \<Rightarrow> string" where
  "isoformat_sep sep d =
     digits4 (year d) @ ''-'' @ digits2 (month d) @ ''-'' @ digits2 (day d) @ [sep] @
     digits2 (hour d) @ '':'' @ digits2 (minute d) @ '':'' @ digits2 (second d) @
     (if microsecond d = 0 then [] else ''.'' @ digits6 (microsecond d))"

definition isoformat :: "datetime \<Rightarrow> string" where
  "isoformat d = isoformat_sep CHR ''T'' d"

text \<open>The order of datetimes, as one number (the fields of a valid datetime are in range).\<close>

definition datetime_ord :: "datetime \<Rightarrow> nat" where
  "datetime_ord d =
     (((((year d * 13 + month d) * 32 + day d) * 24 + hour d) * 60 + minute d) * 60 + second d)
       * 1000000 + microsecond d"

text \<open>
  A stored document is a Python \<open>dict\<close> from field names to values: an association list
  with distinct keys, in insertion order. \<open>AList.update\<close> is \<open>d[k] = v\<close>.
\<close>

datatype bson =
    BNull
  | BBool bool
  | BInt int
  | BFloat float64
  | BText pystr
  | BOid objectid
  | BDate datetime
  | BArr "bson list"
  | BDoc "(string \<times> bson) list"

text \<open>The value of a string given as a literal or an identifier.\<close>

definition BStr :: "string \<Rightarrow> bson" where
  "BStr s = BText (lit s)"

type_synonym document = "(string \<times> bson) list"

definition get_default :: "document \<Rightarrow> string \<Rightarrow> bson \<Rightarrow> bson" where
  "get_default d k dflt = (case map_of d k of Some v \<Rightarrow> v | None \<Rightarrow> dflt)"

definition dict_update :: "('k \<times> 'v) list \<Rightarrow> ('k \<times> 'v) list \<Rightarrow> ('k \<times> 'v) list" where
  "dict_update d other = fold (\<lambda>(k, v). AList.update k v) other d"

text \<open>
  The query language, as far as the repository writes it: a query is a \<open>dict\<close> whose
  entries must all hold. \<open>Equals v\<close> is \<open>{field: v}\<close> (a missing field equals
  \<open>null\<close>), \<open>NotEquals v\<close> is \<open>{field: {"$ne": v}}\<close>. \<open>Expr p\<close> stands for any other
  entry a caller may pass, by the set of documents it accepts.
\<close>

datatype cond = Equals bson | NotEquals bson | Expr "document \<Rightarrow> bool"

type_synonym query = "(string \<times> cond) list"

fun cond_holds :: "document \<Rightarrow> string \<Rightarrow> cond \<Rightarrow> bool" where
  "cond_holds d k (Equals v) = (get_default d k BNull = v)"
| "cond_holds d k (NotEquals v) = (get_default d k BNull \<noteq> v)"
| "cond_holds d k (Expr p) = p d"

definition matches :: "document \<Rightarrow> query \<Rightarrow> bool" where
  "matches d q = list_all (\<lambda>(k, c). cond_holds d k c) q"

definition find :: "query \<Rightarrow> document list \<Rightarrow> document list" where
  "find q coll = filter (\<lambda>d. matches d q) coll"

definition find_one :: "query \<Rightarrow> document list \<Rightarrow> document option" where
  "find_one q coll = (case find q coll of [] \<Rightarrow> None | d # _ \<Rightarrow> Some d)"

definition delete_many :: "query \<Rightarrow> document list \<Rightarrow> document list \<times> nat" where
  "delete_many q coll = (filter (\<lambda>d. \<not> matches d q) coll, length (find q coll))"

definition delete_one :: "query \<Rightarrow> document list \<Rightarrow> document list \<times> nat" where
  "delete_one q coll =
     (case find_one q coll of None \<Rightarrow> (coll, 0) | Some d \<Rightarrow> (remove1 d coll, 1))"

fun update_one :: "query \<Rightarrow> document \<Rightarrow> document list \<Rightarrow> document list" where
  "update_one q sets [] = []"
| "update_one q sets (d # ds) =
     (if matches d q then dict_update d sets # ds else d # update_one q sets ds)"

text \<open>The aggregation pipeline of \<open>RAGService.retrieve\<close>, stage by stage.\<close>

datatype proj = Include | Meta string

datatype stage =
    Search (search_index: string) (search_vector: "float64 list") (search_path: string)
      (search_k: int)
  | Match query
  | Project "(string \<times> proj) list"
  | Limit int

section \<open>Collaborators outside the repository\<close>

text \<open>
  \<open>knnBeta index vector path k coll\<close> is the Atlas Search stage: the candidates it finds
  in \<open>coll\<close>, best first, each with its score under the key \<open>$searchScore\<close>, or the
  failure of the search. \<open>py_repr\<close> prints a number, a list or a dict as \<open>str()\<close> does.
  \<open>ChunkContent_valid\<close> and \<open>ChunkMetadata_valid\<close> say which field values the models of
  \<open>app.models.rag\<close> accept. \<open>text_splitter\<close> is the \<open>RecursiveCharacterTextSplitter\<close>,
  \<open>is_supported\<close> and \<open>extract_text\<close> the \<open>TextExtractionService\<close> (on the bytes of the
  temporary file, the file name that gives its suffix, and the content type).
  \<open>utcnow\<close>, \<open>uuid4_hex\<close>, \<open>uuid4_str\<close> and \<open>new_object_id\<close> give the clock and the
  fresh identifiers, by the number of values drawn before.
\<close>

record 'rng env = "'rng numpy" +
  knnBeta :: "string \<Rightarrow> float64 list \<Rightarrow> string \<Rightarrow> int \<Rightarrow> document list \<Rightarrow> error + document list"
  py_repr :: "bson \<Rightarrow> pystr"
  ChunkContent_valid :: "bson \<Rightarrow> bson \<Rightarrow> bson \<Rightarrow> bool"
  ChunkMetadata_valid :: "bson \<Rightarrow> pystr \<Rightarrow> pystr \<Rightarrow> bson \<Rightarrow> bson \<Rightarrow> bson \<Rightarrow> bson \<Rightarrow> bool"
  text_splitter :: "pystr \<Rightarrow> pystr list"
  is_supported :: "string \<Rightarrow> string \<Rightarrow> bool"
  extract_text :: "string \<Rightarrow> string \<Rightarrow> string \<Rightarrow> error + pystr"
  utcnow :: "nat \<Rightarrow> datetime"
  uuid4_hex :: "nat \<Rightarrow> string"
  uuid4_str :: "nat \<Rightarrow> string"
  new_object_id :: "nat \<Rightarrow> objectid"

text \<open>
  The database (\<open>get_database()\<close>, connected at startup) with its three collections,
  the state of the process-wide generator, and the number of fresh values drawn so far.
  A collection of a connected database is never \<open>None\<close>, and the operations on the
  collections themselves do not fail, but for a duplicate \<open>_id\<close>.
\<close>

record 'rng world =
  db_equipment :: "document list"
  db_documents_metadata :: "document list"
  db_document_chunks :: "document list"
  rng :: 'rng
  fresh :: nat

fun project_field :: "document \<Rightarrow> string \<times> proj \<Rightarrow> document" where
  "project_field d (k, Include) = (case map_of d k of Some v \<Rightarrow> [(k, v)] | None \<Rightarrow> [])"
| "project_field d (k, Meta m) =
     (case map_of d (CHR ''$'' # m) of Some v \<Rightarrow> [(k, v)] | None \<Rightarrow> [])"

fun run_stage :: "('rng, 'm) env_scheme \<Rightarrow> stage \<Rightarrow> document list \<Rightarrow> error + document list" where
  "run_stage env (Search idx vec path k) docs = knnBeta env idx vec path k docs"
| "run_stage env (Match q) docs = Inr (find q docs)"
| "run_stage env (Project spec) docs = Inr (map (\<lambda>d. concat (map (project_field d) spec)) docs)"
| "run_stage env (Limit n) docs =
     (if n \<le> 0 then Inl (OperationFailure ''the limit must be positive'')
      else Inr (take (nat n) docs))"

fun aggregate :: "('rng, 'm) env_scheme \<Rightarrow> stage list \<Rightarrow> document list \<Rightarrow> error + document list" where
  "aggregate env [] docs = Inr docs"
| "aggregate env (s # ss) docs =
     (case run_stage env s docs of Inl e \<Rightarrow> Inl e | Inr docs' \<Rightarrow> aggregate env ss docs')"

text \<open>
  \<open>cursor.to_list(length=n)\<close> for \<open>n\<close> at least 0: at most \<open>n\<close> documents of the
  cursor. For a negative \<open>n\<close> it raises \<open>ValueError\<close> before the cursor sends
  anything; \<open>retrieve\<close>, the one caller with a variable length, has that branch.
\<close>

definition to_list :: "int \<Rightarrow> document list \<Rightarrow> document list" where
  "to_list n docs = take (nat n) docs"

fun py_str :: "('rng, 'm) env_scheme \<Rightarrow> bson \<Rightarrow> pystr" where
  "py_str env (BText s) = s"
| "py_str env (BOid oid) = lit (str_oid oid)"
| "py_str env BNull = lit ''None''"
| "py_str env (BBool b) = lit (if b then ''True'' else ''False'')"
| "py_str env (BDate d) = lit (isoformat_sep CHR '' '' d)"
| "py_str env v = py_repr env v"

section \<open>RAGService (app/services/rag.py)\<close>

definition VECTOR_INDEX_NAME :: string where
  "VECTOR_INDEX_NAME = ''vector_index''"

definition TENANT_ID :: string where
  "TENANT_ID = ''mvp_tenant''"

definition USER_ID :: string where
  "USER_ID = ''mvp_user''"

record ChunkContent =
  content_text :: bson
  content_file_name :: bson
  content_score :: bson

record ChunkMetadata =
  meta_chunk_id :: bson
  meta_document_id :: pystr
  meta_equipment_id :: pystr
  meta_tenant_id :: bson
  meta_chunk_index :: bson
  meta_score :: bson
  meta_file_name :: bson

record RetrievalMetadata =
  query_text :: pystr
  requested_k :: int
  chunks_retrieved :: nat
  scope_equipment_id :: "string option"
  scope_tenant_id :: "string option"
  chunks :: "ChunkMetadata list"

record RetrievalResult =
  data :: "ChunkContent list"
  metadata :: RetrievalMetadata

text \<open>
  What a call of \<open>retrieve\<close> does: the pipelines it hands to \<open>collection.aggregate\<close>, the
  warnings it logs, and the result it returns or the exception it raises.
\<close>

record retrieval =
  aggregate_calls :: "stage list list"
  warnings :: "string list"
  returned :: "error + RetrievalResult"

text \<open>
  Lines 69 to 86: the \<open>$match\<close> filter and the warnings logged while building it. An
  optional argument that is \<open>None\<close> or empty is false in \<open>if equipment_id:\<close>.
\<close>

definition match_filters ::
  "string option \<Rightarrow> string option \<Rightarrow> query option \<Rightarrow> query \<times> string list" where
  "match_filters equipment_id tenant_id extra_filters =
     (let mf0 = [(''is_disabled'', NotEquals (BBool True))];
          (mf1, ws) =
            (case equipment_id of
               None \<Rightarrow> (mf0, [])
             | Some s \<Rightarrow>
                 if s = [] then (mf0, [])
                 else (case ObjectId s of
                         Inr oid \<Rightarrow> (AList.update ''equipment_id'' (Equals (BOid oid)) mf0, [])
                       | Inl e \<Rightarrow> (mf0, [''Invalid equipment_id; skipping filter''])));
          mf2 =
            (case tenant_id of
               None \<Rightarrow> mf1
             | Some t \<Rightarrow> if t = [] then mf1 else AList.update ''tenant_id'' (Equals (BStr t)) mf1);
          mf3 =
            (case extra_filters of
               None \<Rightarrow> mf2
             | Some extra \<Rightarrow> if extra = [] then mf2 else dict_update mf2 extra)
      in (mf3, ws))"

definition projection :: "(string \<times> proj) list" where
  "projection =
     [(''_id'', Include), (''chunk_id'', Include), (''document_id'', Include),
      (''file_name'', Include), (''text'', Include), (''chunk_index'', Include),
      (''equipment_id'', Include), (''tenant_id'', Include), (''score'', Meta ''searchScore'')]"

definition chunk_content :: "document \<Rightarrow> ChunkContent" where
  "chunk_content res =
     \<lparr> content_text = get_default res ''text'' (BStr []),
       content_file_name = get_default res ''file_name'' BNull,
       content_score = get_default res ''score'' BNull \<rparr>"

definition chunk_metadata :: "('rng, 'm) env_scheme \<Rightarrow> document \<Rightarrow> ChunkMetadata" where
  "chunk_metadata env res =
     \<lparr> meta_chunk_id = get_default res ''chunk_id'' (BStr []),
       meta_document_id = py_str env (get_default res ''document_id'' (BStr [])),
       meta_equipment_id = py_str env (get_default res ''equipment_id'' (BStr [])),
       meta_tenant_id = get_default res ''tenant_id'' BNull,
       meta_chunk_index = get_default res ''chunk_index'' (BInt 0),
       meta_score = get_default res ''score'' (BFloat 0),
       meta_file_name = get_default res ''file_name'' (BStr []) \<rparr>"

definition models_accept :: "('rng, 'm) env_scheme \<Rightarrow> document \<Rightarrow> bool" where
  "models_accept env res =
     (let c = chunk_content res; m = chunk_metadata env res
      in ChunkContent_valid env (content_text c) (content_file_name c) (content_score c) \<and>
         ChunkMetadata_valid env (meta_chunk_id m) (meta_document_id m) (meta_equipment_id m)
           (meta_tenant_id m) (meta_chunk_index m) (meta_score m) (meta_file_name m))"

text \<open>Lines 116 to 153: the two views of each record, and the result that wraps them.\<close>

definition shape_results ::
  "('rng, 'm) env_scheme \<Rightarrow> pystr \<Rightarrow> int \<Rightarrow> string option \<Rightarrow> string option \<Rightarrow>
   document list \<Rightarrow> error + RetrievalResult" where
  "shape_results env query k equipment_id tenant_id results =
     (if list_all (models_accept env) results
      then Inr \<lparr> data = map chunk_content results,
                metadata =
                  \<lparr> query_text = query, requested_k = k,
                    chunks_retrieved = length results,
                    scope_equipment_id = equipment_id,
                    scope_tenant_id = tenant_id,
                    chunks = map (chunk_metadata env) results \<rparr> \<rparr>
      else Inl (ValidationError ''validation error for chunk model''))"

definition retrieve ::
  "('rng, 'm) env_scheme \<Rightarrow> 'rng world \<Rightarrow> string \<Rightarrow> pystr \<Rightarrow> int \<Rightarrow> string option \<Rightarrow>
   string option \<Rightarrow> query option \<Rightarrow> retrieval \<times> 'rng world" where
  "retrieve env w index_name query k equipment_id tenant_id extra_filters =
     (case embed_text env (rng w) query of
        (Inl e, st) \<Rightarrow>
          (\<lparr> aggregate_calls = [], warnings = [], returned = Inl e \<rparr>, w\<lparr>rng := st\<rparr>)
      | (Inr query_embedding, st) \<Rightarrow>
          let search_k = max (k * 20) 100;
              vector_query = Search index_name query_embedding ''embedding'' search_k;
              (mf, ws) = match_filters equipment_id tenant_id extra_filters;
              pipeline = [vector_query, Match mf, Project projection, Limit k]
          in (\<lparr> aggregate_calls = [pipeline], warnings = ws,
                returned =
                  (if k < 0 then Inl (ValueError ''length must be non-negative'')
                   else
                     case aggregate env pipeline (db_document_chunks w) of
                       Inl e \<Rightarrow> Inl e
                     | Inr found \<Rightarrow>
                         shape_results env query k equipment_id tenant_id (to_list k found)) \<rparr>,
              w\<lparr>rng := st\<rparr>))"

text \<open>The filters and the candidate pool sizes among the pipelines a call has issued.\<close>

fun stage_filters :: "stage \<Rightarrow> query list" where
  "stage_filters (Match q) = [q]"
| "stage_filters _ = []"

definition executed_filters :: "retrieval \<Rightarrow> query list" where
  "executed_filters r = concat (map (\<lambda>p. concat (map stage_filters p)) (aggregate_calls r))"

fun search_sizes :: "stage \<Rightarrow> int list" where
  "search_sizes (Search idx vec path k) = [k]"
| "search_sizes _ = []"

definition issued_pool_sizes :: "retrieval \<Rightarrow> int list" where
  "issued_pool_sizes r = concat (map (\<lambda>p. concat (map search_sizes p)) (aggregate_calls r))"

text \<open>A stored record is disabled when its field \<open>is_disabled\<close> is \<open>true\<close>.\<close>

definition is_disabled :: "document \<Rightarrow> bool" where
  "is_disabled d = (get_default d ''is_disabled'' BNull = BBool True)"

text \<open>The caller's extra filters have an entry under the key \<open>k\<close>.\<close>

definition overrides :: "string \<Rightarrow> query option \<Rightarrow> bool" where
  "overrides k extra_filters =
     (case extra_filters of None \<Rightarrow> False | Some extra \<Rightarrow> k \<in> fst ` set extra)"

section \<open>The search_knowledge_base tool (app/bot.py)\<close>

text \<open>
  \<open>result_callback\<close> hands a result to the conversation loop and \<open>push_frame\<close> sends the
  richer message to the client; both belong to the pipeline framework and may raise
  (\<open>Some e\<close>). A tool call is described by the results that reached the conversation loop,
  the frames that reached the client, and the exception that leaves the function, if any.
  Every \<open>await\<close> of the body may also end in \<open>CancelledError\<close> when the task is
  cancelled: for the retrieval that is an error of the search, for the two calls an error
  they return.
\<close>

type_synonym tool_result = "(bson \<times> bson) list"

type_synonym rtvi_frame = "(bson \<times> bson \<times> ChunkMetadata) list"

record tool_call =
  delivered :: "tool_result list"
  pushed :: "rtvi_frame list"
  propagated :: "error option"

definition clean_data :: "RetrievalResult \<Rightarrow> tool_result" where
  "clean_data res =
     map (\<lambda>(chunk, meta). (meta_chunk_id meta, content_text chunk))
       (zip (data res) (chunks (metadata res)))"

definition frame_chunks :: "RetrievalResult \<Rightarrow> rtvi_frame" where
  "frame_chunks res =
     map (\<lambda>(chunk, meta). (meta_chunk_id meta, content_text chunk, meta))
       (zip (data res) (chunks (metadata res)))"

text \<open>The body of the \<open>try\<close> block (lines 108 to 145), up to the exception that ends it.\<close>

definition tool_body ::
  "('rng, 'm) env_scheme \<Rightarrow> (tool_result \<Rightarrow> error option) \<Rightarrow> (rtvi_frame \<Rightarrow> error option) \<Rightarrow>
   'rng world \<Rightarrow> string \<Rightarrow> string \<Rightarrow> (string \<times> pystr) list \<Rightarrow> tool_call \<times> 'rng world" where
  "tool_body env result_callback push_frame w equipment_id tenant_id arguments =
     (let query = (case map_of arguments ''query'' of Some q \<Rightarrow> q | None \<Rightarrow> []);
          (r, w') = retrieve env w VECTOR_INDEX_NAME query 5 (Some equipment_id) (Some tenant_id) None
      in ((case returned r of
            Inl e \<Rightarrow> \<lparr> delivered = [], pushed = [], propagated = Some e \<rparr>
          | Inr res \<Rightarrow>
              (case result_callback (clean_data res) of
                 Some e \<Rightarrow> \<lparr> delivered = [], pushed = [], propagated = Some e \<rparr>
               | None \<Rightarrow>
                   (case push_frame (frame_chunks res) of
                      Some e \<Rightarrow>
                        \<lparr> delivered = [clean_data res], pushed = [], propagated = Some e \<rparr>
                    | None \<Rightarrow>
                        \<lparr> delivered = [clean_data res], pushed = [frame_chunks res],
                          propagated = None \<rparr>))),
          w'))"

text \<open>
  The handler \<open>except Exception\<close> (lines 147 to 149) takes the exceptions of class
  \<open>Exception\<close>; any other leaves the function as it is, and so does an exception of the
  handler's own call of \<open>result_callback\<close>.
\<close>

definition search_knowledge_base ::
  "('rng, 'm) env_scheme \<Rightarrow> (tool_result \<Rightarrow> error option) \<Rightarrow> (rtvi_frame \<Rightarrow> error option) \<Rightarrow>
   'rng world \<Rightarrow> string \<Rightarrow> string \<Rightarrow> (string \<times> pystr) list \<Rightarrow> tool_call \<times> 'rng world" where
  "search_knowledge_base env result_callback push_frame w equipment_id tenant_id arguments =
     (let (t, w') = tool_body env result_callback push_frame w equipment_id tenant_id arguments
      in ((case propagated t of
            None \<Rightarrow> t
          | Some e \<Rightarrow>
              if is_Exception e
              then (case result_callback [] of
                      None \<Rightarrow> t\<lparr> delivered := delivered t @ [[]], propagated := None \<rparr>
                    | Some e' \<Rightarrow> t\<lparr> propagated := Some e' \<rparr>)
              else t),
          w'))"

section \<open>The equipment router (app/routers/equipment.py)\<close>

text \<open>
  A handler returns its body, raises an \<open>HTTPException\<close> with a status and a detail, or
  raises something else, which \<open>generic_exception_handler\<close> of \<open>main.py\<close> answers with
  status 500. \<open>status_code ok r\<close> is the status of the response, \<open>ok\<close> being the one
  the route declares.
\<close>

datatype 'a http = Returned 'a | HTTPException nat string | Unhandled error

fun status_code :: "nat \<Rightarrow> 'a http \<Rightarrow> nat" where
  "status_code ok (Returned body) = ok"
| "status_code ok (HTTPException code detail) = code"
| "status_code ok (Unhandled e) = 500"

record delete_response =
  deleted_equipment_id :: string
  equipment_deleted :: nat
  documents_deleted :: nat
  chunks_deleted :: nat

definition delete_equipment ::
  "'rng world \<Rightarrow> string \<Rightarrow> delete_response http \<times> 'rng world" where
  "delete_equipment w equipment_id =
     (case ObjectId equipment_id of
        Inl e \<Rightarrow> (HTTPException 400 ''Invalid equipment_id format'', w)
      | Inr equipment_obj_id \<Rightarrow>
          (case find_one [(''_id'', Equals (BOid equipment_obj_id))] (db_equipment w) of
             None \<Rightarrow> (HTTPException 404 ''Equipment not found'', w)
           | Some equipment \<Rightarrow>
               let (chunks', n_chunks) =
                     delete_many [(''equipment_id'', Equals (BOid equipment_obj_id))]
                       (db_document_chunks w);
                   (docs', n_docs) =
                     delete_many [(''equipment_id'', Equals (BOid equipment_obj_id))]
                       (db_documents_metadata w);
                   (equipment', n_equipment) =
                     delete_one [(''_id'', Equals (BOid equipment_obj_id))] (db_equipment w)
               in (Returned \<lparr> deleted_equipment_id = equipment_id,
                               equipment_deleted = n_equipment,
                               documents_deleted = n_docs,
                               chunks_deleted = n_chunks \<rparr>,
                   w\<lparr> db_document_chunks := chunks', db_documents_metadata := docs',
                      db_equipment := equipment' \<rparr>)))"

text \<open>
  \<open>.sort("created_at", -1)\<close>: newest first. Every value that is not a date sorts below
  the dates; the order among such values, and among equal dates, is left to the store.
\<close>

definition created_key :: "document \<Rightarrow> nat" where
  "created_key d =
     (case map_of d ''created_at'' of Some (BDate t) \<Rightarrow> Suc (datetime_ord t) | _ \<Rightarrow> 0)"

definition sort_created_at_desc :: "document list \<Rightarrow> document list" where
  "sort_created_at_desc docs = rev (sort_key created_key docs)"

text \<open>The normalisation of both list handlers: ids and dates become strings.\<close>

definition str_if_oid :: "string \<Rightarrow> document \<Rightarrow> document" where
  "str_if_oid k d =
     (case map_of d k of Some (BOid oid) \<Rightarrow> AList.update k (BStr (str_oid oid)) d | _ \<Rightarrow> d)"

definition iso_if_date :: "string \<Rightarrow> document \<Rightarrow> document" where
  "iso_if_date k d =
     (case map_of d k of Some (BDate t) \<Rightarrow> AList.update k (BStr (isoformat t)) d | _ \<Rightarrow> d)"

definition normalize :: "document \<Rightarrow> document" where
  "normalize d =
     iso_if_date ''updated_at'' (iso_if_date ''created_at''
       (str_if_oid ''equipment_id'' (str_if_oid ''_id'' d)))"

text \<open>
  The handler of line 122, the first of the two registered for
  \<open>GET /{equipment_id}/documents\<close>.
\<close>

definition list_equipment_documents ::
  "'rng world \<Rightarrow> string \<Rightarrow> (document list \<times> nat) http" where
  "list_equipment_documents w equipment_id =
     (case ObjectId equipment_id of
        Inl e \<Rightarrow> HTTPException 400 ''Invalid equipment_id format''
      | Inr equipment_obj_id \<Rightarrow>
          (case find_one [(''_id'', Equals (BOid equipment_obj_id))] (db_equipment w) of
             None \<Rightarrow> HTTPException 404 ''Equipment not found''
           | Some equipment \<Rightarrow>
               let docs = map normalize
                     (sort_created_at_desc
                        (find [(''equipment_id'', Equals (BOid equipment_obj_id))]
                           (db_documents_metadata w)))
               in Returned (docs, length docs)))"

text \<open>
  The handler of line 377, registered for the same method and path after the first one.
  Its \<open>find\<close> has no sort, so the documents come in the order of the store, and
  \<open>to_list(length=1000)\<close> keeps at most 1000 of them.
\<close>

definition list_equipment_documents_377 ::
  "'rng world \<Rightarrow> string \<Rightarrow> (document list \<times> nat) http" where
  "list_equipment_documents_377 w equipment_id =
     (case ObjectId equipment_id of
        Inl e \<Rightarrow> Unhandled e
      | Inr equipment_obj_id \<Rightarrow>
          (case find_one [(''_id'', Equals (BOid equipment_obj_id))] (db_equipment w) of
             None \<Rightarrow> HTTPException 404 ''Equipment not found''
           | Some equipment \<Rightarrow>
               let documents = to_list 1000
                     (find [(''equipment_id'', Equals (BOid equipment_obj_id)),
                            (''is_disabled'', NotEquals (BBool True))]
                        (db_documents_metadata w));
                   serialized_documents = map normalize documents
               in Returned (serialized_documents, length serialized_documents)))"

text \<open>
  The router tries its routes in the order of registration and the first that matches the
  method and the path serves the request.
\<close>

definition GET_equipment_documents ::
  "'rng world \<Rightarrow> string \<Rightarrow> (document list \<times> nat) http" where
  "GET_equipment_documents w equipment_id = list_equipment_documents w equipment_id"

subsection \<open>Upload\<close>

record upload_file =
  upload_filename :: "string option"
  upload_content_type :: "string option"
  upload_data :: string

text \<open>\<open>x or default\<close> on an optional string.\<close>

fun or_default :: "string option \<Rightarrow> string \<Rightarrow> string" where
  "or_default None dflt = dflt"
| "or_default (Some s) dflt = (if s = [] then dflt else s)"

text \<open>Truth of a stored value, as \<open>or\<close> tests it.\<close>

fun py_truthy :: "bson \<Rightarrow> bool" where
  "py_truthy BNull = False"
| "py_truthy (BBool b) = b"
| "py_truthy (BInt i) = (i \<noteq> 0)"
| "py_truthy (BFloat f) = (f \<noteq> 0 \<and> f \<noteq> 2 ^ 63)"
| "py_truthy (BText s) = (s \<noteq> [])"
| "py_truthy (BOid oid) = True"
| "py_truthy (BDate t) = True"
| "py_truthy (BArr xs) = (xs \<noteq> [])"
| "py_truthy (BDoc d) = (d \<noteq> [])"

definition split_text :: "('rng, 'm) env_scheme \<Rightarrow> pystr \<Rightarrow> pystr list" where
  "split_text env t = (if blank t then [] else text_splitter env t)"

text \<open>
  The loop of lines 260 to 296 over \<open>enumerate(chunks)\<close>, from position \<open>index\<close> on: a
  chunk whose embedding raises is logged and skipped, the others become chunk records.
\<close>

fun embed_chunks ::
  "('rng, 'm) env_scheme \<Rightarrow> objectid \<Rightarrow> objectid \<Rightarrow> bson \<Rightarrow> string \<Rightarrow> nat \<Rightarrow> pystr list \<Rightarrow>
   'rng world \<Rightarrow> document list \<times> 'rng world" where
  "embed_chunks env document_id equipment_oid tenant_id original_name index [] w = ([], w)"
| "embed_chunks env document_id equipment_oid tenant_id original_name index (chunk_text # rest) w =
     (case embed_text env (rng w) chunk_text of
        (Inl e, st) \<Rightarrow>
          embed_chunks env document_id equipment_oid tenant_id original_name (index + 1) rest
            (w\<lparr>rng := st\<rparr>)
      | (Inr embedding_vector, st) \<Rightarrow>
          let chunk_doc =
                [(''document_id'', BOid document_id),
                 (''equipment_id'', BOid equipment_oid),
                 (''tenant_id'', tenant_id),
                 (''file_name'', BStr original_name),
                 (''chunk_id'', BStr (uuid4_str env (fresh w))),
                 (''chunk_index'', BInt (int index)),
                 (''text'', BText chunk_text),
                 (''embedding'', BArr (map BFloat embedding_vector)),
                 (''is_disabled'', BBool False)];
              (chunk_documents, w') =
                embed_chunks env document_id equipment_oid tenant_id original_name (index + 1)
                  rest (w\<lparr>rng := st, fresh := fresh w + 1\<rparr>)
          in (chunk_doc # chunk_documents, w'))"

text \<open>
  \<open>insert_one\<close> and \<open>insert_many\<close> give every record a generated \<open>_id\<close>; an \<open>_id\<close>
  that the collection already holds is a \<open>DuplicateKeyError\<close>, which ends \<open>insert_many\<close>
  after the records inserted so far.
\<close>

definition has_id :: "objectid \<Rightarrow> document list \<Rightarrow> bool" where
  "has_id oid coll = (find [(''_id'', Equals (BOid oid))] coll \<noteq> [])"

fun insert_many ::
  "('rng, 'm) env_scheme \<Rightarrow> document list \<Rightarrow> document list \<Rightarrow> nat \<Rightarrow>
   error option \<times> document list \<times> nat" where
  "insert_many env [] coll n = (None, coll, n)"
| "insert_many env (d # ds) coll n =
     (if has_id (new_object_id env n) coll
      then (Some (Exception ''DuplicateKeyError''), coll, n + 1)
      else insert_many env ds (coll @ [d @ [(''_id'', BOid (new_object_id env n))]]) (n + 1))"

text \<open>
  The body of the loop over the uploaded files (lines 182 to 359), on the state and the
  list \<open>created_docs\<close>. Every \<open>continue\<close> and every exception caught at line 357 leaves
  \<open>created_docs\<close> as it is. The temporary file is written, read by \<open>extract_text\<close> and
  removed within the body. The collaborators called here are synchronous and raise
  exceptions of class \<open>Exception\<close>; the cancellation of the request is not part of the
  model.
\<close>

definition process_file ::
  "('rng, 'm) env_scheme \<Rightarrow> string \<Rightarrow> objectid \<Rightarrow> bson \<Rightarrow> string option \<Rightarrow> upload_file \<Rightarrow>
   'rng world \<times> document list \<Rightarrow> 'rng world \<times> document list" where
  "process_file env equipment_id equipment_oid tenant_id description file state =
     (let (w, created_docs) = state;
          data = upload_data file;
          size = length data;
          original_name = or_default (upload_filename file) ''upload.bin'';
          content_type = or_default (upload_content_type file) ''application/octet-stream''
      in
      if \<not> is_supported env content_type original_name then (w, created_docs)
      else
        case extract_text env data original_name content_type of
          Inl e \<Rightarrow> (w, created_docs)
        | Inr extracted_text \<Rightarrow>
            if blank extracted_text then (w, created_docs)
            else
              let chunks = split_text env extracted_text in
              if chunks = [] then (w, created_docs)
              else
                let storage_key =
                      py_str env tenant_id @
                      lit (''/equipment/'' @ equipment_id @ ''/'' @ uuid4_hex env (fresh w) @
                           ''-'' @ original_name);
                    now = utcnow env (fresh w + 1);
                    doc_dict =
                      [(''equipment_id'', BOid equipment_oid),
                       (''tenant_id'', tenant_id),
                       (''file_name'', BStr original_name),
                       (''content_type'', BStr content_type),
                       (''size'', BInt (int size)),
                       (''storage_key'', BText storage_key),
                       (''uploaded_by'', BStr USER_ID),
                       (''description'', (case description of None \<Rightarrow> BNull | Some x \<Rightarrow> BStr x)),
                       (''document_type'', BStr ''knowledge''),
                       (''embedding_status'', BStr ''processing''),
                       (''created_at'', BDate now),
                       (''updated_at'', BDate now)];
                    document_id = new_object_id env (fresh w + 2);
                    w1 = w\<lparr>fresh := fresh w + 3\<rparr>
                in
                if has_id document_id (db_documents_metadata w) then (w1, created_docs)
                else
                  let doc_dict' = doc_dict @ [(''_id'', BOid document_id)];
                      w2 = w1\<lparr>db_documents_metadata := db_documents_metadata w1 @ [doc_dict']\<rparr>;
                      (chunk_documents, w3) =
                        embed_chunks env document_id equipment_oid tenant_id original_name 0
                          chunks w2
                  in
                  if chunk_documents = []
                  then
                    (w3\<lparr> db_documents_metadata :=
                           update_one [(''_id'', Equals (BOid document_id))]
                             [(''embedding_status'', BStr ''failed''),
                              (''embedding_error'',
                                 BDoc [(''message'',
                                        BStr ''Failed to generate embeddings for all chunks'')]),
                              (''updated_at'', BDate (utcnow env (fresh w3)))]
                             (db_documents_metadata w3),
                         fresh := fresh w3 + 1 \<rparr>,
                     created_docs)
                  else
                    let (failure, chunks', n) =
                          insert_many env chunk_documents (db_document_chunks w3) (fresh w3);
                        w4 = w3\<lparr>db_document_chunks := chunks', fresh := n\<rparr>
                    in
                    case failure of
                      Some e \<Rightarrow> (w4, created_docs)
                    | None \<Rightarrow>
                        (w4\<lparr> db_documents_metadata :=
                               update_one [(''_id'', Equals (BOid document_id))]
                                 [(''embedding_status'', BStr ''completed''),
                                  (''updated_at'', BDate (utcnow env (fresh w4)))]
                                 (db_documents_metadata w4),
                             fresh := fresh w4 + 1 \<rparr>,
                         created_docs @
                           [iso_if_date ''updated_at'' (iso_if_date ''created_at''
                              (AList.update ''equipment_id'' (BStr (str_oid equipment_oid))
                                 (AList.update ''_id'' (BStr (str_oid document_id)) doc_dict')))]))"

definition upload_equipment_documents ::
  "('rng, 'm) env_scheme \<Rightarrow> 'rng world \<Rightarrow> string \<Rightarrow> upload_file list \<Rightarrow> string option \<Rightarrow>
   (document list \<times> nat) http \<times> 'rng world" where
  "upload_equipment_documents env w equipment_id files description =
     (case ObjectId equipment_id of
        Inl e \<Rightarrow> (Unhandled e, w)
      | Inr equipment_oid \<Rightarrow>
          (case find_one [(''_id'', Equals (BOid equipment_oid))] (db_equipment w) of
             None \<Rightarrow> (HTTPException 404 ''Equipment not found'', w)
           | Some equipment \<Rightarrow>
               let stored = get_default equipment ''tenant_id'' BNull;
                   tenant_id = (if py_truthy stored then stored else BStr TENANT_ID);
                   (w', created_docs) =
                     fold (process_file env equipment_id equipment_oid tenant_id description)
                       files (w, [])
               in (Returned (created_docs, length created_docs), w')))"

text \<open>
  The embedding of a chunk fails: \<open>embed_text\<close> raises, whatever the state of the
  generator.
\<close>

definition embedding_fails :: "('rng, 'm) env_scheme \<Rightarrow> pystr \<Rightarrow> bool" where
  "embedding_fails env c = (\<forall>st. \<exists>e. fst (embed_text env st c) = Inl e)"

text \<open>The documents of a response, and what a listing shows of each.\<close>

fun response_documents :: "(document list \<times> nat) http \<Rightarrow> document list" where
  "response_documents (Returned body) = fst body"
| "response_documents _ = []"

definition listing_summary :: "document \<Rightarrow> bson \<times> bson \<times> bson" where
  "listing_summary d =
     (get_default d ''_id'' BNull, get_default d ''is_disabled'' BNull,
      get_default d ''created_at'' BNull)"

section \<open>Concrete instances for evaluation\<close>

text \<open>
  Stand-ins for the libraries, small enough to evaluate: a digest that counts the bytes,
  a generator whose state is a counter, and float operations on bit patterns.
\<close>

definition demo_numpy :: "nat numpy" where
  "demo_numpy =
     \<lparr> sha256 = (\<lambda>bytes. of_nat (length bytes)),
       np_random_seed = (\<lambda>n. n),
       np_random_normal = (\<lambda>st n. (map (\<lambda>i. of_nat (st + i)) [0..<n], st + n)),
       np_linalg_norm = (\<lambda>v. of_nat (length v)),
       np_divide = (\<lambda>v x. map (\<lambda>y. y - x) v) \<rparr>"

text \<open>
  A stand-in for the splitter as \<open>EmbeddingService\<close> configures it (chunks of at most
  1000 characters): a text of at most 1000 characters is one chunk, stripped, and a longer
  one is cut at its blank lines. It agrees with the library on the texts used below, whose
  paragraphs have 900 characters, so that no two of them fit into one chunk.
\<close>

fun split_paragraphs :: "pystr \<Rightarrow> pystr list" where
  "split_paragraphs (c # d # cs) =
     (if c = 10 \<and> d = 10 then [] # split_paragraphs cs
      else (case split_paragraphs (d # cs) of
              [] \<Rightarrow> [[c]]
            | p # ps \<Rightarrow> (c # p) # ps))"
| "split_paragraphs cs = [cs]"

definition demo_splitter :: "pystr \<Rightarrow> pystr list" where
  "demo_splitter t = (if length t \<le> 1000 then [strip t] else split_paragraphs t)"

text \<open>
  Plain-text extraction that decodes the bytes as ASCII with
  \<open>errors="surrogateescape"\<close>: a byte of 128 or more becomes the lone surrogate
  \<open>0xDC00 + byte\<close>.
\<close>

definition surrogateescape :: "string \<Rightarrow> pystr" where
  "surrogateescape bytes =
     map (\<lambda>c. if of_char c < (128::nat) then of_char c else 56320 + of_char c) bytes"

text \<open>
  A stand-in search that takes the first \<open>k\<close> documents of the collection and scores each
  one, and counters printed in decimal for the clock and the identifiers.
\<close>

definition demo_env :: "nat env" where
  "demo_env =
     \<lparr> sha256 = sha256 demo_numpy,
       np_random_seed = np_random_seed demo_numpy,
       np_random_normal = np_random_normal demo_numpy,
       np_linalg_norm = np_linalg_norm demo_numpy,
       np_divide = np_divide demo_numpy,
       knnBeta = (\<lambda>idx vec path k coll.
                    Inr (map (\<lambda>d. d @ [(''$searchScore'', BFloat 1)]) (take (nat k) coll))),
       py_repr = (\<lambda>v. lit ''?''),
       ChunkContent_valid = (\<lambda>t f s. True),
       ChunkMetadata_valid = (\<lambda>c d e t i s f. True),
       text_splitter = demo_splitter,
       is_supported = (\<lambda>content_type name. content_type = ''text/plain''),
       extract_text = (\<lambda>bytes name content_type. Inr (surrogateescape bytes)),
       utcnow = (\<lambda>n. Datetime 2024 6 1 12 0 n 0),
       uuid4_hex = (\<lambda>n. ''000000000000000000000000000000'' @ digits2 n),
       uuid4_str = (\<lambda>n. ''uuid-'' @ digits4 n),
       new_object_id = (\<lambda>n. OID (''0000000000000000000000'' @ digits2 n)) \<rparr>"

definition demo_equipment_id :: string where
  "demo_equipment_id = ''64b7f0c2a1d3e4f5a6b7c8d9''"

definition demo_chunk :: "string \<Rightarrow> string \<Rightarrow> bool \<Rightarrow> document" where
  "demo_chunk cid txt disabled =
     [(''document_id'', BOid (OID ''0000000000000000000000d1'')),
      (''equipment_id'', BOid (OID demo_equipment_id)),
      (''tenant_id'', BStr ''acme''),
      (''file_name'', BStr ''manual.txt''),
      (''chunk_id'', BStr cid),
      (''chunk_index'', BInt 0),
      (''text'', BStr txt),
      (''is_disabled'', BBool disabled)]"

definition demo_document :: "string \<Rightarrow> datetime \<Rightarrow> document" where
  "demo_document oid created =
     [(''equipment_id'', BOid (OID demo_equipment_id)),
      (''tenant_id'', BStr ''acme''),
      (''file_name'', BStr ''manual.txt''),
      (''embedding_status'', BStr ''completed''),
      (''created_at'', BDate created),
      (''updated_at'', BDate created),
      (''_id'', BOid (OID oid))]"

text \<open>
  One equipment with three documents (the second one disabled) and three chunks (the
  first one disabled), in insertion order.
\<close>

definition demo_world :: "nat world" where
  "demo_world =
     \<lparr> db_equipment =
         [[(''name'', BStr ''pump''), (''tenant_id'', BStr ''acme''),
           (''_id'', BOid (OID demo_equipment_id))]],
       db_documents_metadata =
         [demo_document ''0000000000000000000000d1'' (Datetime 2023 11 5 10 0 0 0),
          demo_document ''0000000000000000000000d2'' (Datetime 2024 2 5 10 0 0 0)
            @ [(''is_disabled'', BBool True)],
          demo_document ''0000000000000000000000d3'' (Datetime 2024 3 5 10 0 0 250000)],
       db_document_chunks =
         [demo_chunk ''c-1'' ''obsolete procedure'' True,
          demo_chunk ''c-2'' ''seal replacement'' False,
          demo_chunk ''c-3'' ''bearing lubrication'' False],
       rng = 0,
       fresh = 0 \<rparr>"

definition demo_vector :: "float64 list" where
  "demo_vector = map (\<lambda>y. y - of_nat embedding_dim) (map of_nat [0..<embedding_dim])"

text \<open>An uploaded plain-text file with the given bytes.\<close>

definition demo_file :: "string \<Rightarrow> upload_file" where
  "demo_file bytes =
     \<lparr> upload_filename = Some ''seals.txt'', upload_content_type = Some ''text/plain'',
       upload_data = bytes \<rparr>"

text \<open>The upload of one such file for the equipment of the store.\<close>

definition demo_upload :: "string \<Rightarrow> (document list \<times> nat) http \<times> nat world" where
  "demo_upload bytes =
     upload_equipment_documents demo_env demo_world demo_equipment_id [demo_file bytes] None"

text \<open>
  The same collaborators with a search that is cancelled while it is awaited.
\<close>

definition cancelled_env :: "nat env" where
  "cancelled_env = demo_env\<lparr> knnBeta := (\<lambda>idx vec path k coll. Inl CancelledError) \<rparr>"

text \<open>
  The bytes of a file of three paragraphs of 900 characters, separated by blank lines; the
  second paragraph starts with the byte \<open>0xFF\<close>, the others are plain ASCII.
\<close>

definition demo_paragraph :: "char \<Rightarrow> string" where
  "demo_paragraph c = replicate 900 c"

definition demo_damaged :: string where
  "demo_damaged = CHR 0xFF # replicate 899 CHR ''b''"

definition demo_manual :: string where
  "demo_manual =
     demo_paragraph CHR ''a'' @ [CHR 0x0A, CHR 0x0A] @ demo_damaged @ [CHR 0x0A, CHR 0x0A] @
     demo_paragraph CHR ''c''"

text \<open>The bytes of a file with the first and the third of these paragraphs only.\<close>

definition demo_clean :: string where
  "demo_clean = demo_paragraph CHR ''a'' @ [CHR 0x0A, CHR 0x0A] @ demo_paragraph CHR ''c''"

section \<open>Properties of the embedding service\<close>

lemma blank_iff: "blank t \<longleftrightarrow> list_all py_isspace t"
  unfolding blank_def strip_def
  by (induction t) (auto simp: list_all_iff)

lemma hex_digit_hex_char: "d < 16 \<Longrightarrow> hex_digit (hex_char d) = Some d"
proof -
  assume "d < 16"
  then have "d = 0 \<or> d = 1 \<or> d = 2 \<or> d = 3 \<or> d = 4 \<or> d = 5 \<or> d = 6 \<or> d = 7 \<or> d = 8
      \<or> d = 9 \<or> d = 10 \<or> d = 11 \<or> d = 12 \<or> d = 13 \<or> d = 14 \<or> d = 15" by arith
  then show ?thesis
    by (elim disjE) (simp_all add: hex_digit_def hex_char_def Let_def)
qed

lemma int16_acc_digits:
  "list_all (\<lambda>d. d < 16) ds \<Longrightarrow>
   \<exists>v. int16_acc acc (map hex_char ds) = Some v \<and> v < (acc + 1) * 16 ^ length ds"
proof (induction ds arbitrary: acc)
  case Nil
  then show ?case by simp
next
  case (Cons d ds)
  then have d: "d < 16" and ds: "list_all (\<lambda>d. d < 16) ds" by simp_all
  from Cons.IH [OF ds, of "16 * acc + d"] obtain v where
    v: "int16_acc (16 * acc + d) (map hex_char ds) = Some v"
       "v < (16 * acc + d + 1) * 16 ^ length ds"
    by blast
  have "(16 * acc + d + 1) * 16 ^ length ds \<le> (acc + 1) * 16 ^ length (d # ds)"
    using d by (simp add: algebra_simps)
  with v d show ?case by (auto simp: hex_digit_hex_char)
qed

lemma take8_hexdigest:
  "take 8 (hexdigest w) = map hex_char (map (\<lambda>i. (unat w div 16 ^ (63 - i)) mod 16) [0..<8])"
  by (simp add: hexdigest_def take_map)

text \<open>The first eight digits of a digest always parse, to a seed that \<open>np.random.seed\<close> accepts.\<close>

lemma seed_of_digest:
  "\<exists>seed. py_int16 (take 8 (hexdigest w)) = Some seed \<and> seed < 2 ^ 32"
proof -
  let ?ds = "map (\<lambda>i. (unat w div 16 ^ (63 - i)) mod 16) [0..<8]"
  have "list_all (\<lambda>d. d < 16) ?ds" by (simp add: list_all_iff)
  from int16_acc_digits [OF this, of 0] obtain v where
    "int16_acc 0 (map hex_char ?ds) = Some v" "v < 16 ^ 8" by auto
  moreover have "take 8 (hexdigest w) \<noteq> []" by (simp add: hexdigest_def take_map)
  ultimately show ?thesis
    unfolding py_int16_def take8_hexdigest [symmetric] by auto
qed

lemma embed_text_blank:
  "blank t \<Longrightarrow> embed_text np st t = (Inl (ValueError ''Cannot embed empty text''), st)"
  by (simp add: embed_text_def)

lemma encode_cases:
  "encode t = (if list_ex is_surrogate t then Inl (UnicodeEncodeError ''surrogates not allowed'')
               else Inr (concat (map utf8_bytes t)))"
  by (simp add: encode_def)

lemma embed_text_unencodable:
  "\<not> blank t \<Longrightarrow> list_ex is_surrogate t \<Longrightarrow>
   embed_text np st t = (Inl (UnicodeEncodeError ''surrogates not allowed''), st)"
  by (simp add: embed_text_def encode_def)

lemma embed_text_seeded:
  assumes "\<not> blank t" and "encode t = Inr encoded"
    and "py_int16 (take 8 (hexdigest (sha256 np encoded))) = Some seed"
  shows "fst (embed_text np st t) =
           Inr (let embedding = fst (np_random_normal np (np_random_seed np seed) embedding_dim)
                in np_divide np embedding (np_linalg_norm np embedding))"
proof -
  from seed_of_digest [of "sha256 np encoded"] assms(3) have "seed < 2 ^ 32" by simp
  with assms show ?thesis
    by (simp add: embed_text_def Let_def split: prod.splits)
qed

text \<open>\<open>embed_text\<close> raises exactly on the blank texts and on the texts with a surrogate.\<close>

lemma embed_text_cases:
  "(\<exists>e st. embed_text np st0 t = (Inl e, st) \<and> (blank t \<or> list_ex is_surrogate t)) \<or>
   (\<exists>v st. embed_text np st0 t = (Inr v, st) \<and> \<not> blank t \<and> \<not> list_ex is_surrogate t)"
proof (cases "blank t \<or> list_ex is_surrogate t")
  case True
  then show ?thesis
    by (cases "blank t") (auto simp: embed_text_blank embed_text_unencodable)
next
  case False
  then have e: "encode t = Inr (concat (map utf8_bytes t))" by (simp add: encode_def)
  obtain seed where
    s: "py_int16 (take 8 (hexdigest (sha256 np (concat (map utf8_bytes t))))) = Some seed"
    using seed_of_digest by blast
  from False embed_text_seeded [OF _ e s, of st0] obtain v where
    "fst (embed_text np st0 t) = Inr v" by blast
  with False show ?thesis by (cases "embed_text np st0 t") auto
qed

lemma lit_simps [simp]:
  "lit [] = []" "lit (a @ b) = lit a @ lit b" "length (lit a) = length a"
  "lit a = [] \<longleftrightarrow> a = []"
  by (simp_all add: lit_def)

lemma lit_Cons: "lit (c # cs) = of_char c # lit cs"
  by (simp add: lit_def)

lemma lit_eq_iff [simp]: "lit a = lit b \<longleftrightarrow> a = b"
  by (simp add: lit_def inj_map_eq_map [OF inj_of_char])

lemma lit_encodable: "\<not> list_ex is_surrogate (lit s)"
proof -
  have "\<not> is_surrogate (of_char c)" for c :: char
  proof -
    have "(of_char c :: nat) < 256" by simp
    then show ?thesis unfolding is_surrogate_def by linarith
  qed
  then show ?thesis
    by (induction s) (simp_all add: lit_def)
qed

lemma not_blank_demo: "\<not> blank (lit ''pump manual'')" "\<not> blank (lit ''pump manuals'')"
  by (simp_all add: blank_iff py_isspace_def lit_def)

text \<open>
  C9, as stated, fails for a text that is neither empty nor whitespace-only but holds a
  lone surrogate, such as \<open>"\\ud800"\<close>: \<open>text.encode()\<close> raises
  \<open>UnicodeEncodeError\<close> and no vector is returned, whatever the libraries do.
\<close>

theorem embed_text_raises_on_lone_surrogate:
  "\<not> blank [55296] \<and>
   embed_text demo_numpy 0 [55296] = (Inl (UnicodeEncodeError ''surrogates not allowed''), 0)"
proof -
  have "\<not> blank [55296]" by (simp add: blank_iff py_isspace_def)
  then show ?thesis
    by (simp add: embed_text_unencodable is_surrogate_def)
qed

text \<open>
  C9, amended. For every text that is neither empty nor whitespace-only and holds no
  surrogate code point, two calls of \<open>embed_text\<close> return the same vector, bit for bit:
  both calls succeed, and the vector does not depend on the state (\<open>st1\<close>, \<open>st2\<close>) in
  which the process-wide generator is found, in particular not on the state the first call
  leaves for the second.
\<close>

theorem embed_text_deterministic:
  assumes "\<not> blank t" and "\<not> list_ex is_surrogate t"
  shows "\<exists>v. fst (embed_text np st1 t) = Inr v \<and> fst (embed_text np st2 t) = Inr v"
proof -
  from assms(2) have e: "encode t = Inr (concat (map utf8_bytes t))" by (simp add: encode_def)
  obtain seed where
    "py_int16 (take 8 (hexdigest (sha256 np (concat (map utf8_bytes t))))) = Some seed"
    using seed_of_digest by blast
  with assms(1) e show ?thesis by (simp add: embed_text_seeded)
qed

theorem embed_text_deterministic_witness:
  "\<not> blank (lit ''pump manual'') \<and> \<not> list_ex is_surrogate (lit ''pump manual'') \<and>
   (\<exists>v. fst (embed_text demo_numpy 0 (lit ''pump manual'')) = Inr v \<and>
        fst (embed_text demo_numpy (snd (embed_text demo_numpy 0 (lit ''pump manual'')))
               (lit ''pump manual'')) = Inr v)"
  using embed_text_deterministic [OF not_blank_demo(1) lit_encodable, of demo_numpy 0
      "snd (embed_text demo_numpy 0 (lit ''pump manual''))"]
    not_blank_demo(1) lit_encodable [of "''pump manual''"]
  by blast

text \<open>
  C10. The vector depends on the text only through the first 8 hexadecimal digits of its
  SHA-256 digest: two texts (neither empty nor whitespace-only) whose digests, taken of
  their UTF-8 bytes \<open>b1\<close> and \<open>b2\<close>, agree on those digits get the same vector,
  whatever the rest of the digests and the generator states.
\<close>

theorem embed_text_depends_on_digest_prefix:
  assumes "\<not> blank t1" and "\<not> blank t2"
    and "encode t1 = Inr b1" and "encode t2 = Inr b2"
    and "take 8 (hexdigest (sha256 np b1)) = take 8 (hexdigest (sha256 np b2))"
  shows "\<exists>v. fst (embed_text np st1 t1) = Inr v \<and> fst (embed_text np st2 t2) = Inr v"
proof -
  obtain seed where "py_int16 (take 8 (hexdigest (sha256 np b1))) = Some seed"
    using seed_of_digest by blast
  with assms show ?thesis by (simp add: embed_text_seeded)
qed

lemma small_digest_prefix:
  assumes "n < 16 ^ 56" and "i < 8"
  shows "(n div 16 ^ (63 - i)) mod 16 = (0::nat)"
proof -
  have "(16::nat) ^ 56 \<le> 16 ^ (63 - i)"
    using assms(2) by (intro power_increasing) simp_all
  with assms(1) have "n < 16 ^ (63 - i)" by linarith
  then show ?thesis by simp
qed

lemma small_digest:
  assumes "unat w < 16 ^ 56"
  shows "take 8 (hexdigest w) = ''00000000''"
proof -
  have "(unat w div 16 ^ (63 - i)) mod 16 = 0" if "i \<in> set [0..<8]" for i
    using assms that by (intro small_digest_prefix) simp_all
  then have "map (\<lambda>i. (unat w div 16 ^ (63 - i)) mod 16) [0..<8] = map (\<lambda>i. 0) [0..<8]"
    by (intro map_cong refl)
  also have "\<dots> = [0, 0, 0, 0, 0, 0, 0, 0]" by (simp add: upt_rec)
  finally show ?thesis by (simp add: take8_hexdigest hex_char_def)
qed

lemma length_utf8: "length (concat (map utf8_bytes t)) \<le> 4 * length t"
  by (induction t) (auto simp: utf8_bytes_def)

lemma demo_digest_prefix:
  assumes "length t < 2 ^ 200"
  shows "take 8 (hexdigest (sha256 demo_numpy (concat (map utf8_bytes t)))) = ''00000000''"
proof -
  let ?n = "length (concat (map utf8_bytes t))"
  from length_utf8 [of t] assms have n: "?n < 2 ^ 202" by simp
  have "(2::nat) ^ 202 < 2 ^ 256" "(2::nat) ^ 202 < 16 ^ 56" by simp_all
  with n have "unat (of_nat ?n :: 256 word) < 16 ^ 56"
    by (simp add: unat_of_nat)
  then show ?thesis
    by (intro small_digest) (simp add: demo_numpy_def)
qed

lemma demo_encode:
  "encode (lit ''pump manual'') = Inr (concat (map utf8_bytes (lit ''pump manual'')))"
  "encode (lit ''pump manuals'') = Inr (concat (map utf8_bytes (lit ''pump manuals'')))"
  by (simp_all add: encode_def lit_encodable)

lemma demo_digests:
  "sha256 demo_numpy (concat (map utf8_bytes (lit ''pump manual''))) \<noteq>
   sha256 demo_numpy (concat (map utf8_bytes (lit ''pump manuals'')))"
  "take 8 (hexdigest (sha256 demo_numpy (concat (map utf8_bytes (lit ''pump manual''))))) =
   take 8 (hexdigest (sha256 demo_numpy (concat (map utf8_bytes (lit ''pump manuals'')))))"
proof -
  show "sha256 demo_numpy (concat (map utf8_bytes (lit ''pump manual''))) \<noteq>
        sha256 demo_numpy (concat (map utf8_bytes (lit ''pump manuals'')))"
    by (simp add: demo_numpy_def utf8_bytes_def lit_def)
  have "length (lit ''pump manual'') < 2 ^ 200" "length (lit ''pump manuals'') < 2 ^ 200"
    by simp_all
  then show
    "take 8 (hexdigest (sha256 demo_numpy (concat (map utf8_bytes (lit ''pump manual''))))) =
     take 8 (hexdigest (sha256 demo_numpy (concat (map utf8_bytes (lit ''pump manuals'')))))"
    by (simp only: demo_digest_prefix)
qed

theorem embed_text_depends_on_digest_prefix_witness:
  "lit ''pump manual'' \<noteq> lit ''pump manuals'' \<and>
   sha256 demo_numpy (concat (map utf8_bytes (lit ''pump manual''))) \<noteq>
   sha256 demo_numpy (concat (map utf8_bytes (lit ''pump manuals''))) \<and>
   (\<exists>v. fst (embed_text demo_numpy 0 (lit ''pump manual'')) = Inr v \<and>
        fst (embed_text demo_numpy 7 (lit ''pump manuals'')) = Inr v)"
  using embed_text_depends_on_digest_prefix [OF not_blank_demo demo_encode demo_digests(2), of 0 7]
    demo_digests(1)
  by simp

section \<open>Properties of retrieval\<close>

lemma demo_env_numpy:
  "sha256 demo_env = sha256 demo_numpy"
  "np_random_seed demo_env = np_random_seed demo_numpy"
  "np_random_normal demo_env = np_random_normal demo_numpy"
  "np_linalg_norm demo_env = np_linalg_norm demo_numpy"
  "np_divide demo_env = np_divide demo_numpy"
  by (simp_all add: demo_env_def)

lemma embed_text_demo_any:
  assumes "\<not> blank t" and "\<not> list_ex is_surrogate t" and "length t < 2 ^ 200"
  shows "embed_text demo_env st t = (Inr demo_vector, embedding_dim)"
proof -
  from assms(2) have e: "encode t = Inr (concat (map utf8_bytes t))" by (simp add: encode_def)
  have "py_int16 (take 8 (hexdigest (sha256 demo_env (concat (map utf8_bytes t))))) = Some 0"
    by (simp add: demo_env_numpy demo_digest_prefix [OF assms(3)] py_int16_def hex_digit_def)
  with assms(1) e show ?thesis
    by (simp add: embed_text_def demo_numpy_def demo_vector_def demo_env_numpy)
qed

lemma embed_text_demo:
  "embed_text demo_env st (lit ''pump manual'') = (Inr demo_vector, embedding_dim)"
  by (rule embed_text_demo_any) (simp_all add: not_blank_demo lit_encodable)

lemma demo_env_fields:
  "knnBeta demo_env = (\<lambda>idx vec path k coll.
      Inr (map (\<lambda>d. d @ [(''$searchScore'', BFloat 1)]) (take (nat k) coll)))"
  "py_repr demo_env = (\<lambda>v. lit ''?'')"
  "ChunkContent_valid demo_env = (\<lambda>t f s. True)"
  "ChunkMetadata_valid demo_env = (\<lambda>c d e t i s f. True)"
  "text_splitter demo_env = demo_splitter"
  "is_supported demo_env = (\<lambda>content_type name. content_type = ''text/plain'')"
  "extract_text demo_env = (\<lambda>bytes name content_type. Inr (surrogateescape bytes))"
  "utcnow demo_env = (\<lambda>n. Datetime 2024 6 1 12 0 n 0)"
  "uuid4_hex demo_env = (\<lambda>n. ''000000000000000000000000000000'' @ digits2 n)"
  "uuid4_str demo_env = (\<lambda>n. ''uuid-'' @ digits4 n)"
  "new_object_id demo_env = (\<lambda>n. OID (''0000000000000000000000'' @ digits2 n))"
  by (simp_all add: demo_env_def)

lemma demo_world_fields:
  "db_equipment demo_world =
     [[(''name'', BStr ''pump''), (''tenant_id'', BStr ''acme''),
       (''_id'', BOid (OID demo_equipment_id))]]"
  "db_documents_metadata demo_world =
     [demo_document ''0000000000000000000000d1'' (Datetime 2023 11 5 10 0 0 0),
      demo_document ''0000000000000000000000d2'' (Datetime 2024 2 5 10 0 0 0)
        @ [(''is_disabled'', BBool True)],
      demo_document ''0000000000000000000000d3'' (Datetime 2024 3 5 10 0 0 250000)]"
  "db_document_chunks demo_world =
     [demo_chunk ''c-1'' ''obsolete procedure'' True,
      demo_chunk ''c-2'' ''seal replacement'' False,
      demo_chunk ''c-3'' ''bearing lubrication'' False]"
  "rng demo_world = 0"
  "fresh demo_world = 0"
  by (simp_all add: demo_world_def)

lemma retrieve_blank:
  "blank query \<Longrightarrow>
   fst (retrieve env w idx query k eq ten extra) =
     \<lparr> aggregate_calls = [], warnings = [],
       returned = Inl (ValueError ''Cannot embed empty text'') \<rparr>"
  by (simp add: retrieve_def embed_text_blank)

lemma retrieve_unencodable:
  "\<not> blank query \<Longrightarrow> list_ex is_surrogate query \<Longrightarrow>
   fst (retrieve env w idx query k eq ten extra) =
     \<lparr> aggregate_calls = [], warnings = [],
       returned = Inl (UnicodeEncodeError ''surrogates not allowed'') \<rparr>"
  by (simp add: retrieve_def embed_text_unencodable)

lemma retrieve_calls:
  assumes "\<not> blank query" and "\<not> list_ex is_surrogate query"
  shows "\<exists>vec. aggregate_calls (fst (retrieve env w idx query k eq ten extra)) =
           [[Search idx vec ''embedding'' (max (k * 20) 100),
             Match (fst (match_filters eq ten extra)), Project projection, Limit k]]"
proof -
  from embed_text_cases [of env "rng w" query] assms obtain v st where
    "embed_text env (rng w) query = (Inr v, st)" by auto
  then show ?thesis
    by (simp add: retrieve_def Let_def split: prod.splits)
qed

lemma retrieve_calls_any:
  "aggregate_calls (fst (retrieve env w idx query k eq ten extra)) = [] \<or>
   (\<exists>vec. aggregate_calls (fst (retrieve env w idx query k eq ten extra)) =
           [[Search idx vec ''embedding'' (max (k * 20) 100),
             Match (fst (match_filters eq ten extra)), Project projection, Limit k]])"
  using retrieve_calls [of query env w idx k eq ten extra]
    retrieve_blank [of query env w idx k eq ten extra]
    retrieve_unencodable [of query env w idx k eq ten extra]
  by (cases "blank query"; cases "list_ex is_surrogate query") simp_all

lemma retrieve_returned_length:
  assumes "returned (fst (retrieve env w idx query k eq ten extra)) = Inr res"
  shows "int (length (data res)) \<le> k \<and> length (chunks (metadata res)) = length (data res) \<and>
         chunks_retrieved (metadata res) = length (data res)"
  using assms
  by (auto simp: retrieve_def shape_results_def Let_def to_list_def
      split: prod.splits sum.splits if_splits)

lemma retrieve_unfold:
  assumes "embed_text env (rng w) query = (Inr vec, st)"
  shows "fst (retrieve env w idx query k eq ten extra) =
     \<lparr> aggregate_calls =
         [[Search idx vec ''embedding'' (max (k * 20) 100),
           Match (fst (match_filters eq ten extra)), Project projection, Limit k]],
       warnings = snd (match_filters eq ten extra),
       returned =
         (if k < 0 then Inl (ValueError ''length must be non-negative'')
          else
            case aggregate env
                 [Search idx vec ''embedding'' (max (k * 20) 100),
                  Match (fst (match_filters eq ten extra)), Project projection, Limit k]
                 (db_document_chunks w) of
              Inl e \<Rightarrow> Inl e
            | Inr found \<Rightarrow> shape_results env query k eq ten (to_list k found)) \<rparr>"
  using assms by (simp add: retrieve_def Let_def case_prod_beta del: aggregate.simps)

lemma retrieve_demo:
  "fst (retrieve demo_env demo_world idx (lit ''pump manual'') k eq ten extra) =
     \<lparr> aggregate_calls =
         [[Search idx demo_vector ''embedding'' (max (k * 20) 100),
           Match (fst (match_filters eq ten extra)), Project projection, Limit k]],
       warnings = snd (match_filters eq ten extra),
       returned =
         (if k < 0 then Inl (ValueError ''length must be non-negative'')
          else
            case aggregate demo_env
                 [Search idx demo_vector ''embedding'' (max (k * 20) 100),
                  Match (fst (match_filters eq ten extra)), Project projection, Limit k]
                 (db_document_chunks demo_world) of
              Inl e \<Rightarrow> Inl e
            | Inr found \<Rightarrow>
                shape_results demo_env (lit ''pump manual'') k eq ten (to_list k found)) \<rparr>"
  by (rule retrieve_unfold) (simp add: embed_text_demo demo_world_fields)

lemmas demo_store_eval =
  demo_env_fields demo_world_fields demo_chunk_def find_def matches_def get_default_def
  to_list_def models_accept_def chunk_content_def chunk_metadata_def projection_def
  shape_results_def

text \<open>
  C1, as stated, fails for an empty query: \<open>embed_text\<close> raises before any pipeline is
  built, so no search is issued and no result is returned.
\<close>

theorem retrieve_blank_query_issues_no_search:
  "issued_pool_sizes (fst (retrieve demo_env demo_world VECTOR_INDEX_NAME [] 5 None None None)) = [] \<and>
   returned (fst (retrieve demo_env demo_world VECTOR_INDEX_NAME [] 5 None None None))
     = Inl (ValueError ''Cannot embed empty text'')"
  by (simp add: retrieve_blank blank_def issued_pool_sizes_def)

text \<open>
  C1, amended. For every query that is neither empty nor whitespace-only and holds no
  surrogate code point, and every positive \<open>k\<close>, \<open>retrieve\<close> issues exactly one
  nearest-neighbour search, with candidate pool size \<open>max (k * 20) 100\<close>, and a result it
  returns holds at most \<open>k\<close> entries, as many metadata entries as contents.
\<close>

theorem retrieve_over_fetch:
  assumes "\<not> blank query" and "\<not> list_ex is_surrogate query" and "0 < k"
  shows "issued_pool_sizes (fst (retrieve env w idx query k eq ten extra)) = [max (k * 20) 100] \<and>
         (\<forall>res. returned (fst (retrieve env w idx query k eq ten extra)) = Inr res \<longrightarrow>
                int (length (data res)) \<le> k \<and>
                length (chunks (metadata res)) = length (data res))"
proof -
  from retrieve_calls [OF assms(1,2), of env w idx k eq ten extra]
  have "issued_pool_sizes (fst (retrieve env w idx query k eq ten extra)) = [max (k * 20) 100]"
    by (auto simp: issued_pool_sizes_def)
  with retrieve_returned_length [of env w idx query k eq ten extra] show ?thesis by blast
qed

lemma retrieve_demo_returned:
  "map content_text
     (case returned (fst (retrieve demo_env demo_world VECTOR_INDEX_NAME (lit ''pump manual'') 1 None None None))
      of Inr res \<Rightarrow> data res | Inl e \<Rightarrow> []) = [BStr ''seal replacement'']"
  by (simp add: retrieve_demo match_filters_def demo_store_eval)

theorem retrieve_over_fetch_witness:
  "\<not> blank (lit ''pump manual'') \<and> \<not> list_ex is_surrogate (lit ''pump manual'') \<and>
   issued_pool_sizes
     (fst (retrieve demo_env demo_world VECTOR_INDEX_NAME (lit ''pump manual'') 1 None None None)) = [100] \<and>
   map content_text
     (case returned (fst (retrieve demo_env demo_world VECTOR_INDEX_NAME (lit ''pump manual'') 1 None None None))
      of Inr res \<Rightarrow> data res | Inl e \<Rightarrow> []) = [BStr ''seal replacement'']"
  using retrieve_over_fetch [OF not_blank_demo(1) lit_encodable, of 1 demo_env demo_world
      VECTOR_INDEX_NAME None None None]
    not_blank_demo(1) lit_encodable [of "''pump manual''"] retrieve_demo_returned
  by simp

text \<open>
  C2, as stated, fails: an extra filter under the key \<open>is_disabled\<close> replaces the built-in
  exclusion. With \<open>{"is_disabled": True}\<close> the executed filter has that entry alone,
  a disabled chunk passes it, and the call returns the disabled chunk.
\<close>

theorem extra_filters_replace_disabled_exclusion:
  "executed_filters
     (fst (retrieve demo_env demo_world VECTOR_INDEX_NAME (lit ''pump manual'') 5 None None
        (Some [(''is_disabled'', Equals (BBool True))])))
     = [[(''is_disabled'', Equals (BBool True))]] \<and>
   is_disabled (demo_chunk ''c-1'' ''obsolete procedure'' True) \<and>
   matches (demo_chunk ''c-1'' ''obsolete procedure'' True) [(''is_disabled'', Equals (BBool True))] \<and>
   map content_text
     (case returned (fst (retrieve demo_env demo_world VECTOR_INDEX_NAME (lit ''pump manual'') 5 None None
        (Some [(''is_disabled'', Equals (BBool True))])))
      of Inr res \<Rightarrow> data res | Inl e \<Rightarrow> []) = [BStr ''obsolete procedure'']"
  by (simp add: retrieve_demo match_filters_def dict_update_def executed_filters_def
      is_disabled_def demo_store_eval)

lemma update_keeps_other:
  "k \<noteq> k' \<Longrightarrow> (k, c) \<in> set q \<Longrightarrow> (k, c) \<in> set (AList.update k' c' q)"
  by (induction q) auto

lemma dict_update_keeps:
  "k \<notin> fst ` set extra \<Longrightarrow> (k, c) \<in> set q \<Longrightarrow> (k, c) \<in> set (dict_update q extra)"
  unfolding dict_update_def
  by (induction extra arbitrary: q) (auto simp: update_keeps_other)

lemma match_filters_keeps_exclusion:
  assumes "''is_disabled'' \<notin> fst ` set (case extra of None \<Rightarrow> [] | Some x \<Rightarrow> x)"
  shows "(''is_disabled'', NotEquals (BBool True)) \<in> set (fst (match_filters eq ten extra))"
proof -
  let ?e = "(''is_disabled'', NotEquals (BBool True))"
  have a: "?e \<in> set [?e]" by simp
  show ?thesis
    using assms
    by (auto simp: match_filters_def Let_def update_keeps_other dict_update_keeps
        split: option.splits sum.splits prod.splits)
qed

text \<open>
  C2, amended. For every call of \<open>retrieve\<close> whose extra filters have no entry under
  the key \<open>is_disabled\<close>, every filter the call executes rejects every disabled chunk,
  whatever else the extra filters override; and a filter is executed unless the query is
  empty or whitespace-only (or cannot be encoded, which \<open>embed_text\<close> rejects as well).
\<close>

theorem extra_filters_keep_disabled_exclusion:
  assumes "\<not> overrides ''is_disabled'' extra" and "is_disabled d"
  shows "list_all (\<lambda>q. \<not> matches d q)
           (executed_filters (fst (retrieve env w idx query k eq ten extra))) \<and>
         (blank query \<or> list_ex is_surrogate query \<or>
          executed_filters (fst (retrieve env w idx query k eq ten extra)) \<noteq> [])"
proof -
  let ?mf = "fst (match_filters eq ten extra)"
  from assms(1) have "(''is_disabled'', NotEquals (BBool True)) \<in> set ?mf"
    by (intro match_filters_keeps_exclusion) (simp add: overrides_def split: option.splits)
  moreover from assms(2)
  have "\<not> cond_holds d ''is_disabled'' (NotEquals (BBool True))"
    by (simp add: is_disabled_def)
  ultimately have no: "\<not> matches d ?mf"
    unfolding matches_def list_all_iff by fastforce
  from retrieve_calls_any [of env w idx query k eq ten extra] no
  have "list_all (\<lambda>q. \<not> matches d q)
          (executed_filters (fst (retrieve env w idx query k eq ten extra)))"
    by (auto simp: executed_filters_def)
  moreover
  have "blank query \<or> list_ex is_surrogate query \<or>
        executed_filters (fst (retrieve env w idx query k eq ten extra)) \<noteq> []"
  proof (cases "blank query \<or> list_ex is_surrogate query")
    case False
    then have "\<not> blank query" and "\<not> list_ex is_surrogate query" by simp_all
    from retrieve_calls [OF this, of env w idx k eq ten extra] show ?thesis
      by (auto simp: executed_filters_def)
  qed blast
  ultimately show ?thesis by simp
qed

lemma demo_override_tenant:
  "executed_filters
     (fst (retrieve demo_env demo_world VECTOR_INDEX_NAME (lit ''pump manual'') 5 None (Some ''acme'')
        (Some [(''tenant_id'', Equals (BStr ''globex''))])))
   = [[(''is_disabled'', NotEquals (BBool True)), (''tenant_id'', Equals (BStr ''globex''))]]"
  by (simp add: retrieve_demo match_filters_def dict_update_def executed_filters_def)

theorem extra_filters_keep_disabled_exclusion_witness:
  "\<not> overrides ''is_disabled'' (Some [(''tenant_id'', Equals (BStr ''globex''))]) \<and>
   is_disabled (demo_chunk ''c-1'' ''obsolete procedure'' True) \<and>
   executed_filters
     (fst (retrieve demo_env demo_world VECTOR_INDEX_NAME (lit ''pump manual'') 5 None (Some ''acme'')
        (Some [(''tenant_id'', Equals (BStr ''globex''))])))
   = [[(''is_disabled'', NotEquals (BBool True)), (''tenant_id'', Equals (BStr ''globex''))]] \<and>
   list_all (\<lambda>q. \<not> matches (demo_chunk ''c-1'' ''obsolete procedure'' True) q)
     (executed_filters
       (fst (retrieve demo_env demo_world VECTOR_INDEX_NAME (lit ''pump manual'') 5 None (Some ''acme'')
          (Some [(''tenant_id'', Equals (BStr ''globex''))]))))"
proof -
  have h1: "\<not> overrides ''is_disabled'' (Some [(''tenant_id'', Equals (BStr ''globex''))])"
    by (simp add: overrides_def)
  have h2: "is_disabled (demo_chunk ''c-1'' ''obsolete procedure'' True)"
    by (simp add: is_disabled_def demo_chunk_def get_default_def)
  from extra_filters_keep_disabled_exclusion [OF h1 h2] h1 h2 demo_override_tenant
  show ?thesis by blast
qed

section \<open>Properties of the tool adapter\<close>

lemma demo_equipment_oid: "ObjectId demo_equipment_id = Inr (OID demo_equipment_id)"
  by (simp add: ObjectId_def demo_equipment_id_def hex_digit_def hex_char_def
      hexlify_def ascii_space_def)

lemma demo_match_filters:
  "match_filters (Some demo_equipment_id) (Some ''acme'') None =
     ([(''is_disabled'', NotEquals (BBool True)),
       (''equipment_id'', Equals (BOid (OID demo_equipment_id))),
       (''tenant_id'', Equals (BStr ''acme''))], [])"
proof -
  have "demo_equipment_id \<noteq> []" by (simp add: demo_equipment_id_def)
  then show ?thesis by (simp add: match_filters_def demo_equipment_oid)
qed

lemma embed_text_cancelled_env [simp]:
  "embed_text cancelled_env st t = embed_text demo_env st t"
  by (simp add: embed_text_def cancelled_env_def split: sum.splits option.splits)

lemma retrieve_cancelled:
  "returned (fst (retrieve cancelled_env demo_world VECTOR_INDEX_NAME (lit ''pump manual'') 5
      (Some demo_equipment_id) (Some ''acme'') None)) = Inl CancelledError"
proof -
  have "embed_text cancelled_env (rng demo_world) (lit ''pump manual'')
          = (Inr demo_vector, embedding_dim)"
    by (simp add: embed_text_demo)
  from retrieve_unfold [OF this] show ?thesis
    by (simp add: cancelled_env_def)
qed

lemma demo_tool_results:
  "returned (fst (retrieve demo_env demo_world VECTOR_INDEX_NAME (lit ''pump manual'') 5
      (Some demo_equipment_id) (Some ''acme'') None)) = Inr res \<Longrightarrow>
   clean_data res =
     [(BStr ''c-2'', BStr ''seal replacement''), (BStr ''c-3'', BStr ''bearing lubrication'')]"
  by (auto simp: clean_data_def retrieve_demo demo_match_filters demo_store_eval)

text \<open>
  C7, as stated, fails in two ways. When the search returns and sending the frame to the
  client then fails, the conversation loop has already been given the results and is given
  \<open>{results: []}\<close> as a second result. When the task is cancelled while the search is
  awaited, \<open>CancelledError\<close> is not of class \<open>Exception\<close>: the handler does not take it,
  nothing is delivered and the exception leaves the tool.
\<close>

theorem search_knowledge_base_delivers_twice_or_propagates:
  "delivered (fst (search_knowledge_base demo_env (\<lambda>p. None)
       (\<lambda>f. Some (Exception ''transport closed'')) demo_world demo_equipment_id ''acme''
       [(''query'', lit ''pump manual'')]))
     = [[(BStr ''c-2'', BStr ''seal replacement''), (BStr ''c-3'', BStr ''bearing lubrication'')],
        []] \<and>
   delivered (fst (search_knowledge_base cancelled_env (\<lambda>p. None) (\<lambda>f. None) demo_world
       demo_equipment_id ''acme'' [(''query'', lit ''pump manual'')])) = [] \<and>
   propagated (fst (search_knowledge_base cancelled_env (\<lambda>p. None) (\<lambda>f. None) demo_world
       demo_equipment_id ''acme'' [(''query'', lit ''pump manual'')])) = Some CancelledError"
proof -
  have "delivered (fst (search_knowledge_base demo_env (\<lambda>p. None)
       (\<lambda>f. Some (Exception ''transport closed'')) demo_world demo_equipment_id ''acme''
       [(''query'', lit ''pump manual'')]))
     = [[(BStr ''c-2'', BStr ''seal replacement''), (BStr ''c-3'', BStr ''bearing lubrication'')],
        []]"
    by (simp add: search_knowledge_base_def tool_body_def clean_data_def case_prod_beta Let_def
        retrieve_demo demo_match_filters demo_store_eval)
  moreover
  have "fst (search_knowledge_base cancelled_env (\<lambda>p. None) (\<lambda>f. None) demo_world
       demo_equipment_id ''acme'' [(''query'', lit ''pump manual'')]) =
       \<lparr> delivered = [], pushed = [], propagated = Some CancelledError \<rparr>"
    using retrieve_cancelled
    by (simp add: search_knowledge_base_def tool_body_def case_prod_beta Let_def)
  ultimately show ?thesis by simp
qed

text \<open>
  C7, amended. For every invocation of \<open>search_knowledge_base\<close> in which the conversation
  loop accepts the results handed to it and neither the search nor the sending of the frame
  ends in an exception outside the class \<open>Exception\<close>, the tool ends without an exception
  and delivers a result: when retrieval raises, exactly the result \<open>{results: []}\<close>; when
  retrieval returns, the shaped results, followed by \<open>{results: []}\<close> as a second result
  if sending the frame to the client fails afterwards.
\<close>

theorem search_knowledge_base_always_delivers:
  assumes "\<forall>p. result_callback p = None"
    and "\<forall>e. returned (fst (retrieve env w VECTOR_INDEX_NAME
                    (case map_of args ''query'' of Some q \<Rightarrow> q | None \<Rightarrow> [])
                    5 (Some eq) (Some ten) None)) = Inl e \<longrightarrow> is_Exception e"
    and "\<forall>f e. push_frame f = Some e \<longrightarrow> is_Exception e"
  shows "propagated (fst (search_knowledge_base env result_callback push_frame w eq ten args)) = None \<and>
         delivered (fst (search_knowledge_base env result_callback push_frame w eq ten args)) =
           (case returned (fst (retrieve env w VECTOR_INDEX_NAME
                    (case map_of args ''query'' of Some q \<Rightarrow> q | None \<Rightarrow> [])
                    5 (Some eq) (Some ten) None)) of
              Inl e \<Rightarrow> [[]]
            | Inr res \<Rightarrow>
                (case push_frame (frame_chunks res) of
                   None \<Rightarrow> [clean_data res]
                 | Some e \<Rightarrow> [clean_data res, []]))"
proof (cases "returned (fst (retrieve env w VECTOR_INDEX_NAME
                    (case map_of args ''query'' of Some q \<Rightarrow> q | None \<Rightarrow> [])
                    5 (Some eq) (Some ten) None))")
  case (Inl e)
  with assms(2) have "is_Exception e" by simp
  with Inl assms(1) show ?thesis
    by (simp add: search_knowledge_base_def tool_body_def Let_def case_prod_beta)
next
  case (Inr res)
  show ?thesis
  proof (cases "push_frame (frame_chunks res)")
    case None
    with Inr assms(1) show ?thesis
      by (simp add: search_knowledge_base_def tool_body_def Let_def case_prod_beta)
  next
    case (Some e)
    with assms(3) have "is_Exception e" by blast
    with Some Inr assms(1) show ?thesis
      by (simp add: search_knowledge_base_def tool_body_def Let_def case_prod_beta)
  qed
qed

theorem search_knowledge_base_always_delivers_witness:
  "(\<forall>p. (\<lambda>p :: tool_result. None :: error option) p = None) \<and>
   (\<forall>f. (\<lambda>f :: rtvi_frame. None :: error option) f = None) \<and>
   returned (fst (retrieve demo_env demo_world VECTOR_INDEX_NAME [] 5
       (Some demo_equipment_id) (Some ''acme'') None))
     = Inl (ValueError ''Cannot embed empty text'') \<and>
   is_Exception (ValueError ''Cannot embed empty text'') \<and>
   propagated (fst (search_knowledge_base demo_env (\<lambda>p. None) (\<lambda>f. None) demo_world
       demo_equipment_id ''acme'' [])) = None \<and>
   delivered (fst (search_knowledge_base demo_env (\<lambda>p. None) (\<lambda>f. None) demo_world
       demo_equipment_id ''acme'' [])) = [[]]"
proof -
  have h: "\<forall>p. (\<lambda>p :: tool_result. None :: error option) p = None" by simp
  have p: "\<forall>f e. (\<lambda>f :: rtvi_frame. None :: error option) f = Some e \<longrightarrow> is_Exception e"
    by simp
  have r: "returned (fst (retrieve demo_env demo_world VECTOR_INDEX_NAME [] 5
              (Some demo_equipment_id) (Some ''acme'') None))
           = Inl (ValueError ''Cannot embed empty text'')"
    by (simp add: retrieve_blank blank_def)
  then have q: "\<forall>e. returned (fst (retrieve demo_env demo_world VECTOR_INDEX_NAME
                    (case map_of ([] :: (string \<times> pystr) list) ''query'' of
                       Some q \<Rightarrow> q | None \<Rightarrow> [])
                    5 (Some demo_equipment_id) (Some ''acme'') None)) = Inl e
                \<longrightarrow> is_Exception e"
    by auto
  from search_knowledge_base_always_delivers [OF h q p] r
  show ?thesis by simp
qed

section \<open>Properties of ingestion\<close>

lemma embed_text_fails_iff:
  "(\<exists>e. fst (embed_text np st t) = Inl e) \<longleftrightarrow> blank t \<or> list_ex is_surrogate t"
  using embed_text_cases [of np st t] by auto

lemma embed_chunks_db:
  "db_documents_metadata (snd (embed_chunks env did eo ten name i cks w)) = db_documents_metadata w \<and>
   db_document_chunks (snd (embed_chunks env did eo ten name i cks w)) = db_document_chunks w \<and>
   db_equipment (snd (embed_chunks env did eo ten name i cks w)) = db_equipment w"
proof (induction cks arbitrary: i w)
  case Nil
  then show ?case by simp
next
  case (Cons c cs)
  show ?case
    using embed_text_cases [of env "rng w" c]
    by (auto simp: Cons.IH Let_def case_prod_beta)
qed

lemma filter_upt_Suc:
  "filter P [0..<Suc n] = (if P 0 then [0] else []) @ map Suc (filter (P \<circ> Suc) [0..<n])"
proof -
  have "[0..<Suc n] = 0 # map Suc [0..<n]"
    by (simp add: upt_conv_Cons map_Suc_upt del: upt_Suc)
  then show ?thesis by (simp add: filter_map del: upt_Suc)
qed

lemma embed_chunks_index:
  "map (\<lambda>d. map_of d ''chunk_index'') (fst (embed_chunks env did eo ten name i cks w)) =
   map (\<lambda>j. Some (BInt (int (i + j))))
     (filter (\<lambda>j. \<not> (blank (cks ! j) \<or> list_ex is_surrogate (cks ! j))) [0..<length cks])"
proof (induction cks arbitrary: i w)
  case Nil
  then show ?case by simp
next
  case (Cons c cs)
  show ?case
    using embed_text_cases [of env "rng w" c]
    by (auto simp: Cons.IH Let_def case_prod_beta filter_upt_Suc comp_def simp del: upt_Suc)
qed

lemma embed_chunks_text:
  "map (\<lambda>d. map_of d ''text'') (fst (embed_chunks env did eo ten name i cks w)) =
   map (\<lambda>c. Some (BText c)) (filter (\<lambda>c. \<not> (blank c \<or> list_ex is_surrogate c)) cks)"
proof (induction cks arbitrary: i w)
  case Nil
  then show ?case by simp
next
  case (Cons c cs)
  show ?case
    using embed_text_cases [of env "rng w" c]
    by (auto simp: Cons.IH Let_def case_prod_beta)
qed

lemma embed_chunks_empty:
  "fst (embed_chunks env did eo ten name i cks w) = [] \<longleftrightarrow>
   list_all (\<lambda>c. blank c \<or> list_ex is_surrogate c) cks"
proof (induction cks arbitrary: i w)
  case Nil
  then show ?case by simp
next
  case (Cons c cs)
  show ?case
    using embed_text_cases [of env "rng w" c]
    by (auto simp: Cons.IH Let_def case_prod_beta)
qed

lemma insert_many_ok:
  "insert_many env ds coll n = (None, coll', n') \<Longrightarrow>
   \<exists>new. coll' = coll @ new \<and> length new = length ds \<and>
         (\<forall>k. k \<noteq> ''_id'' \<longrightarrow> map (\<lambda>d. map_of d k) new = map (\<lambda>d. map_of d k) ds)"
proof (induction ds arbitrary: coll n)
  case Nil
  then show ?case by simp
next
  case (Cons d ds)
  let ?d = "d @ [(''_id'', BOid (new_object_id env n))]"
  from Cons.prems have "insert_many env ds (coll @ [?d]) (n + 1) = (None, coll', n')"
    by (simp split: if_splits)
  from Cons.IH [OF this] obtain new where
    new: "coll' = (coll @ [?d]) @ new" "length new = length ds"
      "\<forall>k. k \<noteq> ''_id'' \<longrightarrow> map (\<lambda>d. map_of d k) new = map (\<lambda>d. map_of d k) ds"
    by blast
  have "\<forall>k. k \<noteq> ''_id'' \<longrightarrow> map_of ?d k = map_of d k"
    by (auto simp: map_add_def split: option.splits)
  with new show ?case
    by (intro exI [of _ "?d # new"]) auto
qed

lemma insert_many_new:
  assumes "fst (insert_many env ds coll n) = None"
  shows "\<exists>new. fst (snd (insert_many env ds coll n)) = coll @ new \<and> length new = length ds \<and>
         (\<forall>k. k \<noteq> ''_id'' \<longrightarrow> map (\<lambda>d. map_of d k) new = map (\<lambda>d. map_of d k) ds)"
proof -
  obtain coll' n' where "insert_many env ds coll n = (None, coll', n')"
    using assms by (cases "insert_many env ds coll n") auto
  from insert_many_ok [OF this] this show ?thesis by auto
qed

lemma update_one_new:
  assumes "\<not> has_id oid coll" and "map_of d ''_id'' = Some (BOid oid)"
  shows "update_one [(''_id'', Equals (BOid oid))] sets (coll @ [d]) = coll @ [dict_update d sets]"
  using assms
proof (induction coll)
  case Nil
  then show ?case by (simp add: matches_def get_default_def)
next
  case (Cons x xs)
  then show ?case by (simp add: has_id_def find_def split: if_splits)
qed

text \<open>
  The embedding of a chunk fails exactly when the chunk is empty or whitespace-only, or
  holds a surrogate code point, which \<open>str.encode\<close> rejects.
\<close>

lemma embedding_fails_iff: "embedding_fails env c \<longleftrightarrow> blank c \<or> list_ex is_surrogate c"
  by (simp add: embedding_fails_def embed_text_fails_iff)

text \<open>
  C6. When a file reaches ingestion (its format is supported, text is extracted and is not
  blank, the splitter yields chunks, and the generated document id is not in use) and the
  embedding of every chunk fails, the file leaves exactly one new Document record, with
  status \<open>failed\<close> and an error detail; no Chunk record is inserted, and the response
  gets no entry for the file.
\<close>

theorem all_chunks_failed:
  assumes "is_supported env (or_default (upload_content_type file) ''application/octet-stream'')
             (or_default (upload_filename file) ''upload.bin'')"
    and "extract_text env (upload_data file) (or_default (upload_filename file) ''upload.bin'')
           (or_default (upload_content_type file) ''application/octet-stream'') = Inr extracted"
    and "\<not> blank extracted"
    and "split_text env extracted \<noteq> []"
    and "list_all (embedding_fails env) (split_text env extracted)"
    and "\<not> has_id (new_object_id env (fresh w + 2)) (db_documents_metadata w)"
  shows "\<exists>d. db_documents_metadata
               (fst (process_file env eid eo ten desc file (w, created))) =
             db_documents_metadata w @ [d] \<and>
           map_of d ''embedding_status'' = Some (BStr ''failed'') \<and>
           map_of d ''embedding_error'' =
             Some (BDoc [(''message'', BStr ''Failed to generate embeddings for all chunks'')]) \<and>
           db_document_chunks (fst (process_file env eid eo ten desc file (w, created))) =
             db_document_chunks w \<and>
           snd (process_file env eid eo ten desc file (w, created)) = created"
proof -
  from assms(5) have "list_all (\<lambda>c. blank c \<or> list_ex is_surrogate c) (split_text env extracted)"
    by (simp add: embedding_fails_iff list_all_iff)
  then have none: "\<And>did eo ten name i w.
      fst (embed_chunks env did eo ten name i (split_text env extracted) w) = []"
    by (simp add: embed_chunks_empty)
  show ?thesis
    using assms(1-4,6)
    by (simp add: process_file_def Let_def case_prod_beta none embed_chunks_db update_one_new
        dict_update_def)
qed

lemma demo_ids:
  "new_object_id demo_env 2 = OID ''000000000000000000000002''"
  "uuid4_str demo_env 3 = ''uuid-0003''"
  by (simp_all add: demo_env_fields digits2_def digits4_def dec_digit_def)

lemma demo_no_clash: "\<not> has_id (OID ''000000000000000000000002'') (db_documents_metadata demo_world)"
  by (simp add: has_id_def find_def matches_def get_default_def demo_world_fields demo_document_def)

lemma surrogateescape_simps [simp]:
  "surrogateescape [] = []"
  "surrogateescape (a @ b) = surrogateescape a @ surrogateescape b"
  "length (surrogateescape a) = length a"
  by (simp_all add: surrogateescape_def)

lemma surrogateescape_ascii:
  "list_all (\<lambda>c. of_char c < (128::nat)) s \<Longrightarrow> surrogateescape s = lit s"
  by (induction s) (simp_all add: surrogateescape_def lit_def)

lemma demo_undecodable:
  "surrogateescape [CHR 0xFF] = [56575]"
  by (simp add: surrogateescape_def)

theorem all_chunks_failed_witness:
  "extract_text demo_env (upload_data (demo_file [CHR 0xFF]))
     (or_default (upload_filename (demo_file [CHR 0xFF])) ''upload.bin'')
     (or_default (upload_content_type (demo_file [CHR 0xFF])) ''application/octet-stream'')
     = Inr [56575] \<and>
   split_text demo_env [56575] = [[56575]] \<and>
   (\<exists>d. db_documents_metadata
         (fst (process_file demo_env demo_equipment_id (OID demo_equipment_id) (BStr ''acme'') None
                (demo_file [CHR 0xFF]) (demo_world, []))) =
       db_documents_metadata demo_world @ [d] \<and>
       map_of d ''embedding_status'' = Some (BStr ''failed'') \<and>
       map_of d ''embedding_error'' =
         Some (BDoc [(''message'', BStr ''Failed to generate embeddings for all chunks'')]) \<and>
       db_document_chunks
         (fst (process_file demo_env demo_equipment_id (OID demo_equipment_id) (BStr ''acme'') None
                (demo_file [CHR 0xFF]) (demo_world, []))) =
       db_document_chunks demo_world \<and>
       snd (process_file demo_env demo_equipment_id (OID demo_equipment_id) (BStr ''acme'') None
              (demo_file [CHR 0xFF]) (demo_world, [])) = [])"
proof -
  have nb: "\<not> blank [56575]" by (simp add: blank_iff py_isspace_def)
  have st: "strip [56575] = [56575]" by (simp add: strip_def py_isspace_def)
  have sp: "split_text demo_env [56575] = [[56575]]"
    using nb by (simp add: split_text_def demo_env_fields demo_splitter_def st)
  have ex: "extract_text demo_env (upload_data (demo_file [CHR 0xFF]))
            (or_default (upload_filename (demo_file [CHR 0xFF])) ''upload.bin'')
            (or_default (upload_content_type (demo_file [CHR 0xFF])) ''application/octet-stream'')
          = Inr [56575]"
    by (simp add: demo_file_def demo_env_fields demo_undecodable)
  have su: "is_supported demo_env
            (or_default (upload_content_type (demo_file [CHR 0xFF])) ''application/octet-stream'')
            (or_default (upload_filename (demo_file [CHR 0xFF])) ''upload.bin'')"
    by (simp add: demo_file_def demo_env_fields)
  have ne: "split_text demo_env [56575] \<noteq> []" by (simp add: sp)
  have fl: "list_all (embedding_fails demo_env) (split_text demo_env [56575])"
    by (simp add: sp embedding_fails_iff is_surrogate_def)
  have "fresh demo_world + 2 = 2" by (simp add: demo_world_fields)
  then have id: "\<not> has_id (new_object_id demo_env (fresh demo_world + 2))
                 (db_documents_metadata demo_world)"
    by (simp only: demo_ids demo_no_clash not_False_eq_True)
  from all_chunks_failed [OF su ex nb ne fl id, of demo_equipment_id "OID demo_equipment_id"
      "BStr ''acme''" None "[]"] ex sp
  show ?thesis by blast
qed

text \<open>
  C5, amended. For every file that is ingested (its descriptor is added to the response),
  the Chunk records it persists are the chunks whose embedding did not fail, in source
  order, and the \<open>chunk_index\<close> of each is the position of its text in the sequence of
  chunks the splitter produced, dropped chunks included. The indices are \<open>0..M-1\<close> when
  no chunk was dropped; the position of a dropped chunk is left out and not used again.
\<close>

theorem chunk_index_is_source_position:
  assumes "process_file env eid eo ten desc file (w, created) = (w', created')"
    and "created' \<noteq> created"
  shows "\<exists>extracted new.
           extract_text env (upload_data file) (or_default (upload_filename file) ''upload.bin'')
             (or_default (upload_content_type file) ''application/octet-stream'') = Inr extracted \<and>
           db_document_chunks w' = db_document_chunks w @ new \<and>
           map (\<lambda>d. map_of d ''chunk_index'') new =
             map (\<lambda>j. Some (BInt (int j)))
               (filter (\<lambda>j. \<not> embedding_fails env (split_text env extracted ! j))
                  [0..<length (split_text env extracted)]) \<and>
           map (\<lambda>d. map_of d ''text'') new =
             map (\<lambda>c. Some (BText c))
               (filter (\<lambda>c. \<not> embedding_fails env c) (split_text env extracted)) \<and>
           (list_all (\<lambda>c. \<not> embedding_fails env c) (split_text env extracted) \<longrightarrow>
            map (\<lambda>d. map_of d ''chunk_index'') new =
              map (\<lambda>j. Some (BInt (int j))) [0..<length new])"
proof -
  let ?name = "or_default (upload_filename file) ''upload.bin''"
  let ?ct = "or_default (upload_content_type file) ''application/octet-stream''"
  obtain extracted where ex: "extract_text env (upload_data file) ?name ?ct = Inr extracted"
    using assms
    by (cases "extract_text env (upload_data file) ?name ?ct")
       (auto simp: process_file_def Let_def split: if_splits)
  let ?did = "new_object_id env (fresh w + 2)"
  let ?w2 = "w\<lparr>fresh := fresh w + 3,
                db_documents_metadata := db_documents_metadata w @
                  [[(''equipment_id'', BOid eo),
                       (''tenant_id'', ten),
                       (''file_name'', BStr ?name),
                       (''content_type'', BStr ?ct),
                       (''size'', BInt (int (length (upload_data file)))),
                       (''storage_key'', BText (py_str env ten @
                          lit (''/equipment/'' @ eid @ ''/'' @ uuid4_hex env (fresh w) @
                               ''-'' @ ?name))),
                       (''uploaded_by'', BStr USER_ID),
                       (''description'', (case desc of None \<Rightarrow> BNull | Some x \<Rightarrow> BStr x)),
                       (''document_type'', BStr ''knowledge''),
                       (''embedding_status'', BStr ''processing''),
                       (''created_at'', BDate (utcnow env (fresh w + 1))),
                       (''updated_at'', BDate (utcnow env (fresh w + 1))),
                       (''_id'', BOid ?did)]]\<rparr>"
  let ?cks = "split_text env extracted"
  let ?ec = "embed_chunks env ?did eo ten ?name 0 ?cks ?w2"
  let ?im = "insert_many env (fst ?ec) (db_document_chunks (snd ?ec)) (fresh (snd ?ec))"
  from assms ex have ok: "fst ?im = None" and w': "db_document_chunks w' = fst (snd ?im)"
    by (auto simp: process_file_def Let_def case_prod_beta split: if_splits option.splits)
  from insert_many_new [OF ok] obtain new where
    new: "fst (snd ?im) = db_document_chunks (snd ?ec) @ new"
      "length new = length (fst ?ec)"
      "\<forall>k. k \<noteq> ''_id'' \<longrightarrow> map (\<lambda>d. map_of d k) new = map (\<lambda>d. map_of d k) (fst ?ec)"
    by blast
  have "db_document_chunks (snd ?ec) = db_document_chunks w"
    by (simp add: embed_chunks_db)
  with new w' have stored: "db_document_chunks w' = db_document_chunks w @ new" by simp
  from new(3) have "map (\<lambda>d. map_of d ''chunk_index'') new =
      map (\<lambda>d. map_of d ''chunk_index'') (fst ?ec)" by simp
  then have idx: "map (\<lambda>d. map_of d ''chunk_index'') new =
      map (\<lambda>j. Some (BInt (int j)))
        (filter (\<lambda>j. \<not> embedding_fails env (?cks ! j)) [0..<length ?cks])"
    by (simp add: embed_chunks_index embedding_fails_iff)
  from new(3) have "map (\<lambda>d. map_of d ''text'') new =
      map (\<lambda>d. map_of d ''text'') (fst ?ec)" by simp
  then have texts: "map (\<lambda>d. map_of d ''text'') new =
      map (\<lambda>c. Some (BText c)) (filter (\<lambda>c. \<not> embedding_fails env c) ?cks)"
    by (simp add: embed_chunks_text embedding_fails_iff)
  have "map (\<lambda>d. map_of d ''chunk_index'') new =
          map (\<lambda>j. Some (BInt (int j))) [0..<length new]"
    if all: "list_all (\<lambda>c. \<not> embedding_fails env c) ?cks"
  proof -
    from all have "filter (\<lambda>j. \<not> embedding_fails env (?cks ! j)) [0..<length ?cks] =
                   [0..<length ?cks]"
      by (intro filter_True) (simp add: list_all_length)
    moreover from this idx have "length new = length ?cks"
      using length_map [of "\<lambda>d. map_of d ''chunk_index''" new] by simp
    ultimately show ?thesis using idx by simp
  qed
  with ex stored idx texts show ?thesis by blast
qed

lemma split_paragraphs_single:
  "10 \<notin> set p \<Longrightarrow> split_paragraphs p = [p]"
  by (induction p rule: split_paragraphs.induct) auto

lemma split_paragraphs_cut:
  "10 \<notin> set p \<Longrightarrow> split_paragraphs (p @ 10 # 10 # rest) = p # split_paragraphs rest"
proof (induction p)
  case Nil
  then show ?case by simp
next
  case (Cons c p)
  then have "split_paragraphs (p @ 10 # 10 # rest) = p # split_paragraphs rest" by simp
  moreover obtain d ds where "p @ 10 # 10 # rest = d # ds" by (cases p) auto
  moreover from Cons.prems have "c \<noteq> 10" by auto
  ultimately show ?case by simp
qed

lemma demo_paragraphs:
  "surrogateescape (demo_paragraph CHR ''a'') = lit (demo_paragraph CHR ''a'')"
  "surrogateescape (demo_paragraph CHR ''c'') = lit (demo_paragraph CHR ''c'')"
  "surrogateescape demo_damaged = 56575 # lit (replicate 899 CHR ''b'')"
  "set (lit (demo_paragraph CHR ''a'')) = {97}"
  "set (lit (demo_paragraph CHR ''c'')) = {99}"
  "set (surrogateescape demo_damaged) = {56575, 98}"
  "length (lit (demo_paragraph c)) = 900"
  "length (surrogateescape demo_damaged) = 900"
proof -
  show "surrogateescape (demo_paragraph CHR ''a'') = lit (demo_paragraph CHR ''a'')"
    by (rule surrogateescape_ascii) (simp add: demo_paragraph_def list_all_iff)
  show "surrogateescape (demo_paragraph CHR ''c'') = lit (demo_paragraph CHR ''c'')"
    by (rule surrogateescape_ascii) (simp add: demo_paragraph_def list_all_iff)
  have "surrogateescape (replicate 899 CHR ''b'') = lit (replicate 899 CHR ''b'')"
    by (rule surrogateescape_ascii) (simp add: list_all_iff)
  then show d: "surrogateescape demo_damaged = 56575 # lit (replicate 899 CHR ''b'')"
    by (simp add: demo_damaged_def surrogateescape_def)
  show "set (lit (demo_paragraph CHR ''a'')) = {97}"
    by (simp add: lit_def demo_paragraph_def)
  show "set (lit (demo_paragraph CHR ''c'')) = {99}"
    by (simp add: lit_def demo_paragraph_def)
  show "set (surrogateescape demo_damaged) = {56575, 98}"
    by (simp add: d) (simp add: lit_def)
  show "length (lit (demo_paragraph c)) = 900" by (simp add: demo_paragraph_def)
  show "length (surrogateescape demo_damaged) = 900" by (simp add: demo_damaged_def)
qed

lemma demo_manual_text:
  "surrogateescape demo_manual =
     lit (demo_paragraph CHR ''a'') @ 10 # 10 # surrogateescape demo_damaged @ 10 # 10 #
     lit (demo_paragraph CHR ''c'')"
  "length demo_manual = 2704"
  "\<not> blank (surrogateescape demo_manual)"
proof -
  have nl: "surrogateescape [CHR 0x0A, CHR 0x0A] = [10, 10]"
    by (simp add: surrogateescape_def)
  have "surrogateescape demo_manual =
     surrogateescape (demo_paragraph CHR ''a'') @ surrogateescape [CHR 0x0A, CHR 0x0A] @
     surrogateescape demo_damaged @ surrogateescape [CHR 0x0A, CHR 0x0A] @
     surrogateescape (demo_paragraph CHR ''c'')"
    unfolding demo_manual_def by (simp only: surrogateescape_simps(2))
  then show t: "surrogateescape demo_manual =
     lit (demo_paragraph CHR ''a'') @ 10 # 10 # surrogateescape demo_damaged @ 10 # 10 #
     lit (demo_paragraph CHR ''c'')"
    by (simp add: demo_paragraphs(1,2) nl)
  show "length demo_manual = 2704"
    by (simp add: demo_manual_def demo_paragraph_def demo_damaged_def)
  have "97 \<in> set (lit (demo_paragraph CHR ''a''))" by (simp add: demo_paragraphs(4))
  then have "97 \<in> set (surrogateescape demo_manual)" unfolding t by simp
  moreover have "\<not> py_isspace 97" by (simp add: py_isspace_def)
  ultimately show "\<not> blank (surrogateescape demo_manual)"
    unfolding blank_iff list_all_iff by blast
qed

lemma demo_manual_chunks:
  "split_text demo_env (surrogateescape demo_manual) =
     [lit (demo_paragraph CHR ''a''), surrogateescape demo_damaged, lit (demo_paragraph CHR ''c'')]"
proof -
  have a: "10 \<notin> set (lit (demo_paragraph CHR ''a''))" by (simp add: demo_paragraphs(4))
  have b: "10 \<notin> set (surrogateescape demo_damaged)" by (simp add: demo_paragraphs(6))
  have c: "10 \<notin> set (lit (demo_paragraph CHR ''c''))" by (simp add: demo_paragraphs(5))
  have "split_paragraphs (surrogateescape demo_manual) =
     [lit (demo_paragraph CHR ''a''), surrogateescape demo_damaged, lit (demo_paragraph CHR ''c'')]"
    unfolding demo_manual_text(1)
    by (simp only: split_paragraphs_cut [OF a] split_paragraphs_cut [OF b]
        split_paragraphs_single [OF c])
  moreover have "\<not> length (surrogateescape demo_manual) \<le> 1000"
    by (simp add: demo_manual_text(2))
  ultimately show ?thesis
    using demo_manual_text(3) by (simp add: split_text_def demo_env_fields demo_splitter_def)
qed

lemma embed_demo_manual:
  "embed_text demo_env st (lit (demo_paragraph CHR ''a'')) = (Inr demo_vector, embedding_dim)"
  "embed_text demo_env st (lit (demo_paragraph CHR ''c'')) = (Inr demo_vector, embedding_dim)"
  "embed_text demo_env st (surrogateescape demo_damaged) =
     (Inl (UnicodeEncodeError ''surrogates not allowed''), st)"
proof -
  have nb: "\<not> blank p" if "x \<in> set p" and "\<not> py_isspace x" for p x
    using that unfolding blank_iff list_all_iff by blast
  have "\<not> blank (lit (demo_paragraph CHR ''a''))"
    by (rule nb [of 97]) (simp_all add: demo_paragraphs(4) py_isspace_def)
  moreover have "(900::nat) < 2 ^ 200" by simp
  ultimately show
    "embed_text demo_env st (lit (demo_paragraph CHR ''a'')) = (Inr demo_vector, embedding_dim)"
    by (intro embed_text_demo_any) (simp_all only: lit_encodable demo_paragraphs(7) not_False_eq_True)
  have "\<not> blank (lit (demo_paragraph CHR ''c''))"
    by (rule nb [of 99]) (simp_all add: demo_paragraphs(5) py_isspace_def)
  moreover have "(900::nat) < 2 ^ 200" by simp
  ultimately show
    "embed_text demo_env st (lit (demo_paragraph CHR ''c'')) = (Inr demo_vector, embedding_dim)"
    by (intro embed_text_demo_any) (simp_all only: lit_encodable demo_paragraphs(7) not_False_eq_True)
  have "\<not> blank (surrogateescape demo_damaged)"
    by (rule nb [of 98]) (simp_all add: demo_paragraphs(6) py_isspace_def)
  moreover have "list_ex is_surrogate (surrogateescape demo_damaged)"
    by (simp add: demo_paragraphs(3) is_surrogate_def)
  ultimately show "embed_text demo_env st (surrogateescape demo_damaged) =
     (Inl (UnicodeEncodeError ''surrogates not allowed''), st)"
    by (rule embed_text_unencodable)
qed

lemma demo_clean_text:
  "surrogateescape demo_clean =
     lit (demo_paragraph CHR ''a'') @ 10 # 10 # lit (demo_paragraph CHR ''c'')"
  "length demo_clean = 1802"
  "\<not> blank (surrogateescape demo_clean)"
proof -
  have nl: "surrogateescape [CHR 0x0A, CHR 0x0A] = [10, 10]"
    by (simp add: surrogateescape_def)
  have "surrogateescape demo_clean =
     surrogateescape (demo_paragraph CHR ''a'') @ surrogateescape [CHR 0x0A, CHR 0x0A] @
     surrogateescape (demo_paragraph CHR ''c'')"
    unfolding demo_clean_def by (simp only: surrogateescape_simps(2))
  then show t: "surrogateescape demo_clean =
     lit (demo_paragraph CHR ''a'') @ 10 # 10 # lit (demo_paragraph CHR ''c'')"
    by (simp add: demo_paragraphs(1,2) nl)
  show "length demo_clean = 1802"
    by (simp add: demo_clean_def demo_paragraph_def)
  have "97 \<in> set (lit (demo_paragraph CHR ''a''))" by (simp add: demo_paragraphs(4))
  then have "97 \<in> set (surrogateescape demo_clean)" unfolding t by simp
  moreover have "\<not> py_isspace 97" by (simp add: py_isspace_def)
  ultimately show "\<not> blank (surrogateescape demo_clean)"
    unfolding blank_iff list_all_iff by blast
qed

lemma demo_clean_chunks:
  "split_text demo_env (surrogateescape demo_clean) =
     [lit (demo_paragraph CHR ''a''), lit (demo_paragraph CHR ''c'')]"
proof -
  have a: "10 \<notin> set (lit (demo_paragraph CHR ''a''))" by (simp add: demo_paragraphs(4))
  have c: "10 \<notin> set (lit (demo_paragraph CHR ''c''))" by (simp add: demo_paragraphs(5))
  have "split_paragraphs (surrogateescape demo_clean) =
     [lit (demo_paragraph CHR ''a''), lit (demo_paragraph CHR ''c'')]"
    unfolding demo_clean_text(1)
    by (simp only: split_paragraphs_cut [OF a] split_paragraphs_single [OF c])
  moreover have "\<not> length (surrogateescape demo_clean) \<le> 1000"
    by (simp add: demo_clean_text(2))
  ultimately show ?thesis
    using demo_clean_text(3) by (simp add: split_text_def demo_env_fields demo_splitter_def)
qed

lemma demo_find_equipment:
  "find_one [(''_id'', Equals (BOid (OID demo_equipment_id)))] (db_equipment demo_world) =
     Some [(''name'', BStr ''pump''), (''tenant_id'', BStr ''acme''),
           (''_id'', BOid (OID demo_equipment_id))]"
  by (simp add: find_one_def find_def matches_def get_default_def demo_world_fields)

lemma demo_upload_unfold:
  "snd (demo_upload bytes) =
     fst (process_file demo_env demo_equipment_id (OID demo_equipment_id) (BStr ''acme'') None
            (demo_file bytes) (demo_world, []))"
  "fst (demo_upload bytes) =
     Returned
       (snd (process_file demo_env demo_equipment_id (OID demo_equipment_id) (BStr ''acme'') None
               (demo_file bytes) (demo_world, [])),
        length
          (snd (process_file demo_env demo_equipment_id (OID demo_equipment_id) (BStr ''acme'')
                  None (demo_file bytes) (demo_world, []))))"
  by (simp_all add: demo_upload_def upload_equipment_documents_def demo_equipment_oid
      demo_find_equipment get_default_def Let_def case_prod_beta BStr_def)

lemma demo_insert_chunks:
  "map_of c1 ''_id'' = None \<Longrightarrow>
   insert_many demo_env [c1, c2] (db_document_chunks demo_world) 5 =
     (None, db_document_chunks demo_world @
        [c1 @ [(''_id'', BOid (OID ''000000000000000000000005''))],
         c2 @ [(''_id'', BOid (OID ''000000000000000000000006''))]], 7)"
  by (simp add: has_id_def find_def matches_def get_default_def demo_world_fields demo_chunk_def
      demo_env_fields digits2_def dec_digit_def map_add_def)

lemma demo_insert_chunk:
  "insert_many demo_env [c1] (db_document_chunks demo_world) 4 =
     (None, db_document_chunks demo_world @
        [c1 @ [(''_id'', BOid (OID ''000000000000000000000004''))]], 5)"
  by (simp add: has_id_def find_def matches_def get_default_def demo_world_fields demo_chunk_def
      demo_env_fields digits2_def dec_digit_def map_add_def)

lemmas process_file_eval =
  process_file_def Let_def case_prod_beta demo_file_def demo_env_fields
  embed_chunks_db demo_world_fields(5) digits2_def digits4_def dec_digit_def demo_no_clash
  demo_insert_chunks demo_insert_chunk

lemma demo_gap_created:
  "snd (process_file demo_env demo_equipment_id (OID demo_equipment_id) (BStr ''acme'') None
         (demo_file demo_manual) (demo_world, [])) \<noteq> []"
  by (simp add: process_file_eval demo_manual_text(2,3) demo_manual_chunks embed_demo_manual
      del: insert_many.simps)

lemma demo_gap_stored:
  "db_document_chunks
     (fst (process_file demo_env demo_equipment_id (OID demo_equipment_id) (BStr ''acme'') None
         (demo_file demo_manual) (demo_world, []))) =
   db_document_chunks demo_world @
   [[(''document_id'', BOid (OID ''000000000000000000000002'')),
     (''equipment_id'', BOid (OID demo_equipment_id)),
     (''tenant_id'', BStr ''acme''), (''file_name'', BStr ''seals.txt''),
     (''chunk_id'', BStr ''uuid-0003''), (''chunk_index'', BInt 0),
     (''text'', BStr (demo_paragraph CHR ''a'')),
     (''embedding'', BArr (map BFloat demo_vector)),
     (''is_disabled'', BBool False),
     (''_id'', BOid (OID ''000000000000000000000005''))],
    [(''document_id'', BOid (OID ''000000000000000000000002'')),
     (''equipment_id'', BOid (OID demo_equipment_id)),
     (''tenant_id'', BStr ''acme''), (''file_name'', BStr ''seals.txt''),
     (''chunk_id'', BStr ''uuid-0004''), (''chunk_index'', BInt 2),
     (''text'', BStr (demo_paragraph CHR ''c'')),
     (''embedding'', BArr (map BFloat demo_vector)),
     (''is_disabled'', BBool False),
     (''_id'', BOid (OID ''000000000000000000000006''))]]"
  by (simp add: process_file_eval demo_manual_text(2,3) demo_manual_chunks embed_demo_manual
      del: insert_many.simps) (simp add: BStr_def)

lemma demo_clean_created:
  "snd (process_file demo_env demo_equipment_id (OID demo_equipment_id) (BStr ''acme'') None
         (demo_file demo_clean) (demo_world, [])) \<noteq> []"
  by (simp add: process_file_eval demo_clean_text(2,3) demo_clean_chunks embed_demo_manual
      del: insert_many.simps)

lemma demo_clean_embedded:
  "list_all (\<lambda>c. \<not> embedding_fails demo_env c) (split_text demo_env (surrogateescape demo_clean))"
  by (simp add: demo_clean_chunks embedding_fails_def embed_demo_manual)

text \<open>
  C5, as stated, fails when a chunk is dropped. A file of three paragraphs is split into
  three chunks; the second one holds a lone surrogate, for the undecodable byte of the
  file, and cannot be embedded. The two persisted records carry the indices 0 and 2.
\<close>

theorem dropped_chunk_leaves_gap:
  "text_splitter demo_env (surrogateescape demo_manual) =
     [lit (demo_paragraph CHR ''a''), surrogateescape demo_damaged,
      lit (demo_paragraph CHR ''c'')] \<and>
   embed_text demo_env 0 (surrogateescape demo_damaged) =
     (Inl (UnicodeEncodeError ''surrogates not allowed''), 0) \<and>
   map (\<lambda>d. get_default d ''chunk_index'' BNull)
     (drop (length (db_document_chunks demo_world))
        (db_document_chunks (snd (demo_upload demo_manual)))) = [BInt 0, BInt 2] \<and>
   map (\<lambda>d. get_default d ''text'' BNull)
     (drop (length (db_document_chunks demo_world))
        (db_document_chunks (snd (demo_upload demo_manual)))) =
     [BStr (demo_paragraph CHR ''a''), BStr (demo_paragraph CHR ''c'')]"
proof -
  have "text_splitter demo_env (surrogateescape demo_manual) =
     [lit (demo_paragraph CHR ''a''), surrogateescape demo_damaged,
      lit (demo_paragraph CHR ''c'')]"
    using demo_manual_chunks demo_manual_text(3) by (simp add: split_text_def)
  then show ?thesis
    by (simp add: demo_upload_unfold demo_gap_stored get_default_def embed_demo_manual)
qed

theorem chunk_index_is_source_position_witness:
  "snd (process_file demo_env demo_equipment_id (OID demo_equipment_id) (BStr ''acme'') None
         (demo_file demo_manual) (demo_world, [])) \<noteq> [] \<and>
   (\<exists>extracted new.
     extract_text demo_env (upload_data (demo_file demo_manual))
       (or_default (upload_filename (demo_file demo_manual)) ''upload.bin'')
       (or_default (upload_content_type (demo_file demo_manual)) ''application/octet-stream'')
     = Inr extracted \<and>
     db_document_chunks
       (fst (process_file demo_env demo_equipment_id (OID demo_equipment_id) (BStr ''acme'') None
               (demo_file demo_manual) (demo_world, []))) =
     db_document_chunks demo_world @ new \<and>
     map (\<lambda>d. map_of d ''chunk_index'') new =
       map (\<lambda>j. Some (BInt (int j)))
         (filter (\<lambda>j. \<not> embedding_fails demo_env (split_text demo_env extracted ! j))
            [0..<length (split_text demo_env extracted)]) \<and>
     map (\<lambda>d. map_of d ''text'') new =
       map (\<lambda>c. Some (BText c))
         (filter (\<lambda>c. \<not> embedding_fails demo_env c) (split_text demo_env extracted))) \<and>
   snd (process_file demo_env demo_equipment_id (OID demo_equipment_id) (BStr ''acme'') None
         (demo_file demo_clean) (demo_world, [])) \<noteq> [] \<and>
   list_all (\<lambda>c. \<not> embedding_fails demo_env c)
     (split_text demo_env (surrogateescape demo_clean)) \<and>
   (\<exists>new.
     db_document_chunks
       (fst (process_file demo_env demo_equipment_id (OID demo_equipment_id) (BStr ''acme'') None
               (demo_file demo_clean) (demo_world, []))) =
     db_document_chunks demo_world @ new \<and>
     map (\<lambda>d. map_of d ''chunk_index'') new =
       map (\<lambda>j. Some (BInt (int j))) [0..<length new])"
proof -
  have ex: "extract_text demo_env (upload_data (demo_file demo_clean))
       (or_default (upload_filename (demo_file demo_clean)) ''upload.bin'')
       (or_default (upload_content_type (demo_file demo_clean)) ''application/octet-stream'')
     = Inr (surrogateescape demo_clean)"
    by (simp add: demo_file_def demo_env_fields)
  from chunk_index_is_source_position [OF prod.collapse [symmetric] demo_clean_created]
    ex demo_clean_embedded
  have "\<exists>new.
     db_document_chunks
       (fst (process_file demo_env demo_equipment_id (OID demo_equipment_id) (BStr ''acme'') None
               (demo_file demo_clean) (demo_world, []))) =
     db_document_chunks demo_world @ new \<and>
     map (\<lambda>d. map_of d ''chunk_index'') new =
       map (\<lambda>j. Some (BInt (int j))) [0..<length new]"
    by (metis Inr_inject)
  with chunk_index_is_source_position [OF prod.collapse [symmetric] demo_gap_created]
    demo_gap_created demo_clean_created demo_clean_embedded
  show ?thesis by blast
qed

lemma demo_seal_text:
  "surrogateescape ''seal|bearing'' = lit ''seal|bearing''"
  "\<not> blank (lit ''seal|bearing'')"
  "split_text demo_env (lit ''seal|bearing'') = [lit ''seal|bearing'']"
  "embed_text demo_env st (lit ''seal|bearing'') = (Inr demo_vector, embedding_dim)"
proof -
  show "surrogateescape ''seal|bearing'' = lit ''seal|bearing''"
    by (rule surrogateescape_ascii) simp
  show nb: "\<not> blank (lit ''seal|bearing'')"
    by (simp add: blank_iff py_isspace_def lit_def)
  have "strip (lit ''seal|bearing'') = lit ''seal|bearing''"
    by (simp add: strip_def py_isspace_def lit_def)
  with nb show "split_text demo_env (lit ''seal|bearing'') = [lit ''seal|bearing'']"
    by (simp add: split_text_def demo_env_fields demo_splitter_def)
  from nb show
    "embed_text demo_env st (lit ''seal|bearing'') = (Inr demo_vector, embedding_dim)"
    by (intro embed_text_demo_any) (simp_all add: lit_encodable)
qed

lemma demo_ok_created:
  "snd (process_file demo_env demo_equipment_id (OID demo_equipment_id) (BStr ''acme'') None
         (demo_file ''seal|bearing'') (demo_world, [])) =
   [[(''equipment_id'', BStr demo_equipment_id),
     (''tenant_id'', BStr ''acme''),
     (''file_name'', BStr ''seals.txt''),
     (''content_type'', BStr ''text/plain''),
     (''size'', BInt 12),
     (''storage_key'',
        BStr (''acme/equipment/'' @ demo_equipment_id @
              ''/00000000000000000000000000000000-seals.txt'')),
     (''uploaded_by'', BStr USER_ID),
     (''description'', BNull),
     (''document_type'', BStr ''knowledge''),
     (''embedding_status'', BStr ''processing''),
     (''created_at'', BStr ''2024-06-01T12:00:01''),
     (''updated_at'', BStr ''2024-06-01T12:00:01''),
     (''_id'', BStr ''000000000000000000000002'')]]"
  by (simp add: process_file_eval demo_seal_text iso_if_date_def isoformat_def isoformat_sep_def
      del: insert_many.simps) (simp add: BStr_def lit_def)

lemma demo_ok_docs:
  "db_documents_metadata
       (fst (process_file demo_env demo_equipment_id (OID demo_equipment_id) (BStr ''acme'') None
         (demo_file ''seal|bearing'') (demo_world, []))) =
   db_documents_metadata demo_world @
   [[(''equipment_id'', BOid (OID demo_equipment_id)),
     (''tenant_id'', BStr ''acme''),
     (''file_name'', BStr ''seals.txt''),
     (''content_type'', BStr ''text/plain''),
     (''size'', BInt 12),
     (''storage_key'',
        BStr (''acme/equipment/'' @ demo_equipment_id @
              ''/00000000000000000000000000000000-seals.txt'')),
     (''uploaded_by'', BStr USER_ID),
     (''description'', BNull),
     (''document_type'', BStr ''knowledge''),
     (''embedding_status'', BStr ''completed''),
     (''created_at'', BDate (Datetime 2024 6 1 12 0 1 0)),
     (''updated_at'', BDate (Datetime 2024 6 1 12 0 5 0)),
     (''_id'', BOid (OID ''000000000000000000000002''))]]"
  by (simp add: process_file_eval demo_seal_text update_one_new dict_update_def
      del: insert_many.simps) (simp add: BStr_def lit_def)

lemma demo_ok_stored:
  "map (\<lambda>d. get_default d ''embedding_status'' BNull)
     (find [(''_id'', Equals (BOid (OID ''000000000000000000000002'')))]
       (db_documents_metadata
         (fst (process_file demo_env demo_equipment_id (OID demo_equipment_id) (BStr ''acme'') None
           (demo_file ''seal|bearing'') (demo_world, []))))) = [BStr ''completed'']"
  by (simp add: demo_ok_docs find_def matches_def get_default_def demo_world_fields
      demo_document_def)

text \<open>
  C4 fails on the code. For a file ingested without any failure, the response is 201 and
  its entry says \<open>processing\<close>, while the stored record already says \<open>completed\<close>:
  the handler updates the store and returns the dictionary it built before.
\<close>

theorem upload_response_reports_processing:
  "status_code 201 (fst (demo_upload ''seal|bearing'')) = 201 \<and>
   map (\<lambda>d. get_default d ''embedding_status'' BNull)
     (response_documents (fst (demo_upload ''seal|bearing''))) = [BStr ''processing''] \<and>
   map (\<lambda>d. get_default d ''embedding_status'' BNull)
     (find [(''_id'', Equals (BOid (OID ''000000000000000000000002'')))]
        (db_documents_metadata (snd (demo_upload ''seal|bearing'')))) = [BStr ''completed'']"
  by (simp add: demo_upload_unfold demo_ok_created demo_ok_stored)
     (simp add: get_default_def)

section \<open>Properties of the HTTP handlers\<close>

lemma demo_documents_of_equipment:
  "find [(''equipment_id'', Equals (BOid (OID demo_equipment_id)))]
     (db_documents_metadata demo_world) = db_documents_metadata demo_world"
  by (simp add: find_def matches_def get_default_def demo_world_fields demo_document_def)

lemma demo_enabled_documents:
  "find [(''equipment_id'', Equals (BOid (OID demo_equipment_id))),
         (''is_disabled'', NotEquals (BBool True))]
     (db_documents_metadata demo_world) =
   [demo_document ''0000000000000000000000d1'' (Datetime 2023 11 5 10 0 0 0),
    demo_document ''0000000000000000000000d3'' (Datetime 2024 3 5 10 0 0 250000)]"
  by (simp add: find_def matches_def get_default_def demo_world_fields demo_document_def)

lemma demo_sorted:
  "sort_created_at_desc (db_documents_metadata demo_world) =
   [demo_document ''0000000000000000000000d3'' (Datetime 2024 3 5 10 0 0 250000),
    demo_document ''0000000000000000000000d2'' (Datetime 2024 2 5 10 0 0 0)
      @ [(''is_disabled'', BBool True)],
    demo_document ''0000000000000000000000d1'' (Datetime 2023 11 5 10 0 0 0)]"
proof -
  have "created_key (demo_document a t) = Suc (datetime_ord t)" for a t
    by (simp add: created_key_def demo_document_def)
  moreover have "created_key (demo_document a t @ x) = Suc (datetime_ord t)" for a t x
    by (simp add: created_key_def demo_document_def)
  ultimately show ?thesis
    by (simp add: sort_created_at_desc_def demo_world_fields datetime_ord_def)
qed

lemma demo_summary:
  "listing_summary (normalize (demo_document a t)) = (BStr a, BNull, BStr (isoformat t))"
  "listing_summary (normalize (demo_document a t @ [(''is_disabled'', BBool b)])) =
     (BStr a, BBool b, BStr (isoformat t))"
  by (simp_all add: listing_summary_def normalize_def str_if_oid_def iso_if_date_def
      demo_document_def get_default_def)

lemma demo_iso:
  "isoformat (Datetime 2023 11 5 10 0 0 0) = ''2023-11-05T10:00:00''"
  "isoformat (Datetime 2024 2 5 10 0 0 0) = ''2024-02-05T10:00:00''"
  "isoformat (Datetime 2024 3 5 10 0 0 250000) = ''2024-03-05T10:00:00.250000''"
  by (simp_all add: isoformat_def isoformat_sep_def digits2_def digits4_def digits6_def
      dec_digit_def)

text \<open>
  C3 fails on the code. The handler that serves \<open>GET /equipment/{id}/documents\<close> (the
  first one registered) lists the documents newest first, with string ids and ISO-8601
  timestamps, but includes the disabled document; the second handler leaves the disabled
  document out but returns the others in the order of the store, oldest first here.
\<close>

theorem listing_returns_disabled_or_unsorted:
  "map listing_summary
     (response_documents (GET_equipment_documents demo_world demo_equipment_id)) =
     [(BStr ''0000000000000000000000d3'', BNull, BStr ''2024-03-05T10:00:00.250000''),
      (BStr ''0000000000000000000000d2'', BBool True, BStr ''2024-02-05T10:00:00''),
      (BStr ''0000000000000000000000d1'', BNull, BStr ''2023-11-05T10:00:00'')] \<and>
   map listing_summary
     (response_documents (list_equipment_documents_377 demo_world demo_equipment_id)) =
     [(BStr ''0000000000000000000000d1'', BNull, BStr ''2023-11-05T10:00:00''),
      (BStr ''0000000000000000000000d3'', BNull, BStr ''2024-03-05T10:00:00.250000'')]"
  by (simp add: GET_equipment_documents_def list_equipment_documents_def
      list_equipment_documents_377_def demo_equipment_oid demo_find_equipment
      demo_documents_of_equipment demo_enabled_documents demo_sorted to_list_def
      demo_summary demo_iso)

lemma invalid_id: "ObjectId ''invalid-id'' = Inl (InvalidId ''invalid-id'')"
  by (simp add: ObjectId_def)

lemma demo_invalid_filters:
  "match_filters (Some ''invalid-id'') None None =
     ([(''is_disabled'', NotEquals (BBool True))], [''Invalid equipment_id; skipping filter''])"
  by (simp add: match_filters_def invalid_id)

text \<open>
  C8 fails on the code for the upload endpoint. For the malformed id \<open>invalid-id\<close>,
  \<open>DELETE\<close> and the serving list handler answer 400, but the upload handler (and the
  second list handler) call \<open>ObjectId\<close> outside any \<open>try\<close>, and the exception becomes
  a 500. \<open>retrieve\<close> logs a warning, drops the equipment filter, keeps the others and
  returns its results.
\<close>

theorem malformed_equipment_id_statuses:
  "status_code 200 (fst (delete_equipment demo_world ''invalid-id'')) = 400 \<and>
   status_code 200 (GET_equipment_documents demo_world ''invalid-id'') = 400 \<and>
   status_code 201
     (fst (upload_equipment_documents demo_env demo_world ''invalid-id''
             [demo_file ''seal|bearing''] None)) = 500 \<and>
   status_code 200 (list_equipment_documents_377 demo_world ''invalid-id'') = 500 \<and>
   warnings (fst (retrieve demo_env demo_world VECTOR_INDEX_NAME (lit ''pump manual'') 5
                    (Some ''invalid-id'') None None))
     = [''Invalid equipment_id; skipping filter''] \<and>
   executed_filters (fst (retrieve demo_env demo_world VECTOR_INDEX_NAME (lit ''pump manual'') 5
                            (Some ''invalid-id'') None None))
     = [[(''is_disabled'', NotEquals (BBool True))]] \<and>
   map content_text
     (case returned (fst (retrieve demo_env demo_world VECTOR_INDEX_NAME (lit ''pump manual'') 5
                            (Some ''invalid-id'') None None))
      of Inr res \<Rightarrow> data res | Inl e \<Rightarrow> [])
     = [BStr ''seal replacement'', BStr ''bearing lubrication'']"
  by (simp add: delete_equipment_def GET_equipment_documents_def list_equipment_documents_def
      upload_equipment_documents_def list_equipment_documents_377_def invalid_id
      retrieve_demo demo_invalid_filters executed_filters_def demo_store_eval)

end
